theory Spec2Isabelle
  imports Complex_Main "HOL-Library.Multiset" "HOL-Library.Char_ord" "HOL-Library.List_Lexorder"
begin

section \<open>JavaScript values used by the collectors\<close>

text \<open>
  A JavaScript number is an IEEE binary64 value. The finite ones are rational numbers, carried
  in the reals; the three special values are kept apart. Negative zero is identified with zero: no
  code path below distinguishes them.
\<close>

datatype number = NaN | PInf | NInf | Fin real

text \<open>
  A field of a JavaScript object literal: the key may be missing, hold \<open>null\<close>, or
  hold a value.
\<close>

datatype 'a field = Absent | Null | Present 'a

subsection \<open>Rounding a rational to binary64\<close>

text \<open>Number of binary digits of a natural number.\<close>

function bitlen_nat :: "nat \<Rightarrow> nat" where
  "bitlen_nat n = (if n = 0 then 0 else Suc (bitlen_nat (n div 2)))"
  by pat_completeness auto
termination
  by (relation "measure id") auto

declare bitlen_nat.simps [simp del]

text \<open>\<open>ilog2 a\<close> is the integer \<open>e\<close> with \<open>2^e \<le> a < 2^(e+1)\<close>, for \<open>a > 0\<close>.\<close>

definition ilog2 :: "real \<Rightarrow> int" where
  "ilog2 a =
     (if 1 \<le> a then int (bitlen_nat (nat \<lfloor>a\<rfloor>)) - 1
      else - int (bitlen_nat (nat (\<lceil>1 / a\<rceil> - 1))))"

text \<open>Powers of two with an integer exponent.\<close>

definition pow2 :: "int \<Rightarrow> real" where
  "pow2 q = (if 0 \<le> q then 2 ^ nat q else 1 / 2 ^ nat (- q))"

text \<open>Round to the nearest integer, ties to the even one.\<close>

definition round_even :: "real \<Rightarrow> int" where
  "round_even x =
     (let f = \<lfloor>x\<rfloor>; d = x - of_int f
      in if d < 1 / 2 then f
         else if 1 / 2 < d then f + 1
         else if even f then f else f + 1)"

text \<open>
  The binary64 value nearest to a real: 53 significant bits, least exponent
  \<open>-1074\<close> (subnormals), overflow to infinity from \<open>2^1024\<close>.
\<close>

definition to_double :: "real \<Rightarrow> number" where
  "to_double x =
     (if x = 0 then Fin 0
      else
        let a = \<bar>x\<bar>;
            q = max (ilog2 a - 52) (- 1074);
            m = round_even (a * pow2 (- q));
            v = of_int m * pow2 q
        in if 2 ^ 1024 \<le> v then (if 0 < x then PInf else NInf)
           else Fin (sgn x * v))"

subsection \<open>Arithmetic operators and \<open>Math\<close> functions\<close>

fun num_sub :: "number \<Rightarrow> number \<Rightarrow> number" where
  "num_sub NaN _ = NaN"
| "num_sub _ NaN = NaN"
| "num_sub (Fin a) (Fin b) = to_double (a - b)"
| "num_sub PInf PInf = NaN"
| "num_sub NInf NInf = NaN"
| "num_sub PInf _ = PInf"
| "num_sub NInf _ = NInf"
| "num_sub _ PInf = NInf"
| "num_sub _ NInf = PInf"

fun num_mul :: "number \<Rightarrow> number \<Rightarrow> number" where
  "num_mul NaN _ = NaN"
| "num_mul _ NaN = NaN"
| "num_mul (Fin a) (Fin b) = to_double (a * b)"
| "num_mul (Fin a) PInf = (if a = 0 then NaN else if 0 < a then PInf else NInf)"
| "num_mul (Fin a) NInf = (if a = 0 then NaN else if 0 < a then NInf else PInf)"
| "num_mul PInf (Fin b) = (if b = 0 then NaN else if 0 < b then PInf else NInf)"
| "num_mul NInf (Fin b) = (if b = 0 then NaN else if 0 < b then NInf else PInf)"
| "num_mul PInf PInf = PInf"
| "num_mul NInf NInf = PInf"
| "num_mul PInf NInf = NInf"
| "num_mul NInf PInf = NInf"

fun num_div :: "number \<Rightarrow> number \<Rightarrow> number" where
  "num_div NaN _ = NaN"
| "num_div _ NaN = NaN"
| "num_div (Fin a) (Fin b) =
     (if b = 0 then (if a = 0 then NaN else if 0 < a then PInf else NInf)
      else to_double (a / b))"
| "num_div (Fin a) _ = Fin 0"
| "num_div PInf (Fin b) = (if 0 \<le> b then PInf else NInf)"
| "num_div NInf (Fin b) = (if 0 \<le> b then NInf else PInf)"
| "num_div _ _ = NaN"

text \<open>\<open>Math.round\<close>: the nearest integer, ties towards \<open>+\<infinity>\<close>.\<close>

fun math_round :: "number \<Rightarrow> number" where
  "math_round (Fin x) = Fin (of_int \<lfloor>x + 1 / 2\<rfloor>)"
| "math_round n = n"

fun math_min :: "number \<Rightarrow> number \<Rightarrow> number" where
  "math_min NaN _ = NaN"
| "math_min _ NaN = NaN"
| "math_min NInf _ = NInf"
| "math_min _ NInf = NInf"
| "math_min PInf b = b"
| "math_min a PInf = a"
| "math_min (Fin a) (Fin b) = Fin (min a b)"

fun math_max :: "number \<Rightarrow> number \<Rightarrow> number" where
  "math_max NaN _ = NaN"
| "math_max _ NaN = NaN"
| "math_max PInf _ = PInf"
| "math_max _ PInf = PInf"
| "math_max NInf b = b"
| "math_max a NInf = a"
| "math_max (Fin a) (Fin b) = Fin (max a b)"

text \<open>An integer-valued number, as the operating system reports counters and sizes.\<close>

abbreviation of_integer :: "int \<Rightarrow> number" where
  "of_integer i \<equiv> Fin (of_int i)"

text \<open>Truthiness of a number: \<open>NaN\<close> and zero are falsy.\<close>

fun truthy_num :: "number \<Rightarrow> bool" where
  "truthy_num NaN = False"
| "truthy_num (Fin x) = (x \<noteq> 0)"
| "truthy_num _ = True"

text \<open>\<open>x || d\<close> on numbers and on strings (the empty string is falsy).\<close>

definition num_or :: "number \<Rightarrow> number \<Rightarrow> number" where
  "num_or x d = (if truthy_num x then x else d)"

definition str_or :: "string \<Rightarrow> string \<Rightarrow> string" where
  "str_or s d = (if s = [] then d else s)"

subsection \<open>Strings\<close>

text \<open>
  Strings are sequences of characters with codes below 256. The white space of
  \<open>trim\<close>, of \<open>parseInt\<close> and of the regular expression class \<open>\s\<close> in that range is:
  tab, line feed, vertical tab, form feed, carriage return, space, no-break space.
\<close>

definition is_space :: "char \<Rightarrow> bool" where
  "is_space c =
     (c \<in> set [CHR 0x09, CHR 0x0A, CHR 0x0B, CHR 0x0C, CHR 0x0D, CHR '' '', CHR 0xA0])"

definition trim_start :: "string \<Rightarrow> string" where
  "trim_start s = dropWhile is_space s"

definition trim :: "string \<Rightarrow> string" where
  "trim s = rev (dropWhile is_space (rev (dropWhile is_space s)))"

text \<open>\<open>s.split(c)\<close> for a one-character separator: never empty, keeps empty pieces.\<close>

fun split_char :: "char \<Rightarrow> string \<Rightarrow> string list" where
  "split_char c [] = [[]]"
| "split_char c (x # xs) =
     (if x = c then [] # split_char c xs
      else (case split_char c xs of
              w # ws \<Rightarrow> (x # w) # ws
            | [] \<Rightarrow> [[x]]))"

text \<open>\<open>s.split(/\s+/)\<close>: a maximal run of white space is one separator.\<close>

function split_ws :: "string \<Rightarrow> string list" where
  "split_ws [] = [[]]"
| "split_ws (x # xs) =
     (if is_space x then [] # split_ws (dropWhile is_space xs)
      else (case split_ws xs of
              w # ws \<Rightarrow> (x # w) # ws
            | [] \<Rightarrow> [[x]]))"
  by pat_completeness auto
termination
  by (relation "measure length") (auto simp: length_dropWhile_le less_Suc_eq_le)

text \<open>\<open>s.startsWith(p)\<close> and \<open>s.includes(p)\<close>.\<close>

definition starts_with :: "string \<Rightarrow> string \<Rightarrow> bool" where
  "starts_with s p = (take (length p) s = p)"

fun str_includes :: "string \<Rightarrow> string \<Rightarrow> bool" where
  "str_includes [] p = (p = [])"
| "str_includes (x # xs) p = (starts_with (x # xs) p \<or> str_includes xs p)"

text \<open>
  \<open>s.split(sep)\<close> for a separator of several characters (the empty separator,
  which splits between all characters, is not used by the code and never matches here).
\<close>

function split_str :: "string \<Rightarrow> string \<Rightarrow> string list" where
  "split_str sep [] = [[]]"
| "split_str sep (x # xs) =
     (if sep \<noteq> [] \<and> starts_with (x # xs) sep
      then [] # split_str sep (drop (length sep) (x # xs))
      else (case split_str sep xs of
              w # ws \<Rightarrow> (x # w) # ws
            | [] \<Rightarrow> [[x]]))"
  by pat_completeness auto
termination
  by (relation "measure (\<lambda>(sep, s). length s)") (auto simp: neq_Nil_conv)

text \<open>\<open>parts.join(' ')\<close>.\<close>

fun join_sp :: "string list \<Rightarrow> string" where
  "join_sp [] = []"
| "join_sp [w] = w"
| "join_sp (w # ws) = w @ CHR '' '' # join_sp ws"

subsection \<open>\<open>parseInt\<close>\<close>

definition digit_val :: "char \<Rightarrow> nat option" where
  "digit_val c =
     (let n = of_char c :: nat
      in if 48 \<le> n \<and> n \<le> 57 then Some (n - 48)
         else if 97 \<le> n \<and> n \<le> 102 then Some (n - 87)
         else if 65 \<le> n \<and> n \<le> 70 then Some (n - 55)
         else None)"

definition is_digit :: "nat \<Rightarrow> char \<Rightarrow> bool" where
  "is_digit radix c = (case digit_val c of None \<Rightarrow> False | Some d \<Rightarrow> d < radix)"

definition digits_value :: "nat \<Rightarrow> string \<Rightarrow> nat" where
  "digits_value radix ds = foldl (\<lambda>acc c. acc * radix + (case digit_val c of None \<Rightarrow> 0 | Some d \<Rightarrow> d)) 0 ds"

text \<open>
  \<open>parseInt(s)\<close> without a radix: leading white space is skipped, then an optional
  sign, then an optional \<open>0x\<close> prefix that selects radix 16, then the longest run of
  digits; no digit gives \<open>NaN\<close>. The integer read is rounded to binary64.
\<close>

definition parse_digits :: "string \<Rightarrow> int option" where
  "parse_digits s =
     (let hex = (starts_with s ''0x'' \<or> starts_with s ''0X'');
          radix = (if hex then 16 else 10);
          body = (if hex then drop 2 s else s);
          ds = takeWhile (is_digit radix) body
      in if ds = [] then None else Some (int (digits_value radix ds)))"

definition parse_int :: "string \<Rightarrow> int option" where
  "parse_int s =
     (case trim_start s of
        [] \<Rightarrow> None
      | c # cs \<Rightarrow>
          if c = CHR ''-'' then map_option uminus (parse_digits cs)
          else if c = CHR ''+'' then parse_digits cs
          else parse_digits (c # cs))"

definition parseInt :: "string \<Rightarrow> number" where
  "parseInt s = (case parse_int s of None \<Rightarrow> NaN | Some i \<Rightarrow> to_double (of_int i))"

section \<open>System collectors (\<open>server/src/utils/system.js\<close>)\<close>

text \<open>
  A thrown JavaScript error, with its message. Results of code that can throw are
  sums, \<open>Inl\<close> the error.
\<close>

datatype js_error = TypeError string | Error string

fun error_message :: "js_error \<Rightarrow> string" where
  "error_message (TypeError m) = m"
| "error_message (Error m) = m"

subsection \<open>CPU utilisation\<close>

text \<open>
  One entry of \<open>os.cpus()\<close>. The tick counters are integer milliseconds; sums and
  differences of them are exact in binary64 below \<open>2^53\<close> and are computed on integers.
\<close>

record cpu_times =
  t_user :: int
  t_nice :: int
  t_sys :: int
  t_idle :: int
  t_irq :: int

record cpu_core =
  core_model :: string
  core_speed :: int
  core_times :: cpu_times

text \<open>\<open>Object.values(cpu.times).reduce((a, b) => a + b, 0)\<close>.\<close>

definition times_total :: "cpu_times \<Rightarrow> int" where
  "times_total t = foldl (+) 0 [t_user t, t_nice t, t_sys t, t_idle t, t_irq t]"

text \<open>
  The loop of \<open>getCPUPercent\<close> over the first reading. Where the second reading has
  no entry at the index, \<open>cpu2.times\<close> throws a \<open>TypeError\<close> inside the timer callback.
\<close>

fun cpu_deltas :: "cpu_core list \<Rightarrow> cpu_core list \<Rightarrow> int \<times> int \<Rightarrow> js_error + int \<times> int" where
  "cpu_deltas [] cpus2 acc = Inr acc"
| "cpu_deltas (cpu1 # cpus1) [] acc =
     Inl (TypeError ''Cannot read properties of undefined (reading 'times')'')"
| "cpu_deltas (cpu1 # cpus1) (cpu2 # cpus2) (totalIdle, totalTick) =
     (let idle1 = t_idle (core_times cpu1);
          idle2 = t_idle (core_times cpu2);
          total1 = times_total (core_times cpu1);
          total2 = times_total (core_times cpu2)
      in cpu_deltas cpus1 cpus2 (totalIdle + (idle2 - idle1), totalTick + (total2 - total1)))"

text \<open>
  \<open>getCPUPercent\<close> returns \<open>new Promise((resolve) => { ... setTimeout(() => { ... }, 100) })\<close>:
  the loop and the call of \<open>resolve\<close> run in the timer callback, after the executor has
  returned. An error thrown there is outside the promise: nothing rejects it, the
  error is uncaught, and the promise never settles. \<open>Inl (NeverSettles e)\<close> is that
  outcome, \<open>Inr v\<close> the promise fulfilled with \<open>v\<close>; the promise is never rejected.
\<close>

datatype pending = NeverSettles js_error

definition getCPUPercent :: "cpu_core list \<Rightarrow> cpu_core list \<Rightarrow> pending + number" where
  "getCPUPercent cpus1 cpus2 =
     (case cpu_deltas cpus1 cpus2 (0, 0) of
        Inl e \<Rightarrow> Inl (NeverSettles e)
      | Inr (totalIdle, totalTick) \<Rightarrow>
          (let usage = num_sub (Fin 100)
                 (math_round (num_mul (num_div (of_integer totalIdle) (of_integer totalTick)) (Fin 100)))
           in Inr (math_max (Fin 0) (math_min (Fin 100) usage))))"

subsection \<open>CPU temperature\<close>

text \<open>
  \<open>readFile\<close> is the file system at the time of the call: \<open>None\<close> where reading the
  path throws.
\<close>

type_synonym file_system = "string \<Rightarrow> string option"

definition thermalPaths :: "string list" where
  "thermalPaths = [''/sys/class/thermal/thermal_zone0/temp'', ''/sys/class/thermal/thermal_zone1/temp'']"

fun thermal_scan :: "file_system \<Rightarrow> string list \<Rightarrow> number option" where
  "thermal_scan readFile [] = None"
| "thermal_scan readFile (path # paths) =
     (case readFile path of
        None \<Rightarrow> thermal_scan readFile paths
      | Some temp \<Rightarrow>
          (let tempValue = parseInt (trim temp)
           in if tempValue \<noteq> NaN then Some (math_round (num_div tempValue (Fin 1000)))
              else thermal_scan readFile paths))"

definition getCPUTemperature :: "file_system \<Rightarrow> number option" where
  "getCPUTemperature readFile = thermal_scan readFile thermalPaths"

subsection \<open>\<open>getCPUUsage\<close>\<close>

record cpu_info =
  cpu_model :: string
  cpu_cores :: nat
  cpu_speed :: int
  cpu_architecture :: string
  cpu_usage :: number
  cpu_temperature :: "number field"

text \<open>
  The host as the CPU collector sees it: the three successive readings of
  \<open>os.cpus()\<close> (one in \<open>getCPUUsage\<close>, two in \<open>getCPUPercent\<close>, 100 ms apart),
  \<open>process.platform\<close>, \<open>process.arch\<close> and the file system.
\<close>

record cpu_host =
  h_cpus :: "cpu_core list"
  h_cpus1 :: "cpu_core list"
  h_cpus2 :: "cpu_core list"
  h_platform :: string
  h_arch :: string
  h_readFile :: file_system

text \<open>
  \<open>getCPUUsage\<close> awaits \<open>getCPUPercent()\<close>: where that promise never settles, the
  \<open>await\<close> never resumes and the promise of \<open>getCPUUsage\<close> never settles either.
  Nothing else in the function can throw (the temperature probe catches every read
  error), so this promise is never rejected.
\<close>

definition getCPUUsage :: "cpu_host \<Rightarrow> pending + cpu_info" where
  "getCPUUsage h =
     (let cpus = h_cpus h;
          cpuInfo = \<lparr> cpu_model = str_or (case cpus of [] \<Rightarrow> [] | c # _ \<Rightarrow> core_model c) ''Unknown'',
                      cpu_cores = length cpus,
                      cpu_speed = (case cpus of [] \<Rightarrow> 0 | c # _ \<Rightarrow> core_speed c),
                      cpu_architecture = h_arch h,
                      cpu_usage = NaN,
                      cpu_temperature = Absent \<rparr>
      in case getCPUPercent (h_cpus1 h) (h_cpus2 h) of
           Inl never \<Rightarrow> Inl never
         | Inr usage \<Rightarrow>
             (let cpuInfo = cpuInfo \<lparr> cpu_usage := usage \<rparr>
              in if h_platform h = ''linux''
                 then (case getCPUTemperature (h_readFile h) of
                         None \<Rightarrow> Inr cpuInfo
                       | Some cpuTemp \<Rightarrow> Inr (cpuInfo \<lparr> cpu_temperature := Present cpuTemp \<rparr>))
                 else Inr cpuInfo))"

subsection \<open>Memory\<close>

record mem_info =
  mem_total :: number
  mem_free :: number
  mem_used :: number
  mem_percentage :: number
  mem_available :: "number field"
  mem_buffers :: "number field"
  mem_cached :: "number field"
  mem_swapTotal :: "number field"
  mem_swapFree :: "number field"
  mem_swapUsed :: "number field"

text \<open>\<open>Math.round(bytes / 1024 / 1024)\<close>.\<close>

definition to_MB :: "int \<Rightarrow> number" where
  "to_MB bytes = math_round (num_div (num_div (of_integer bytes) (Fin 1024)) (Fin 1024))"

text \<open>\<open>line.match(/(\d+)/)\<close>: the first maximal run of decimal digits, if any.\<close>

definition first_digits :: "string \<Rightarrow> string option" where
  "first_digits line =
     (let rest = dropWhile (\<lambda>c. \<not> is_digit 10 c) line
      in if rest = [] then None else Some (takeWhile (is_digit 10) rest))"

definition getMemValue :: "string list \<Rightarrow> string \<Rightarrow> number" where
  "getMemValue lines name =
     (case find (\<lambda>l. starts_with l name) lines of
        None \<Rightarrow> Fin 0
      | Some line \<Rightarrow>
          if line = [] then Fin 0
          else (case first_digits line of
                  None \<Rightarrow> Fin 0
                | Some m \<Rightarrow> math_round (num_div (parseInt m) (Fin 1024))))"

text \<open>
  \<open>getMemoryUsage\<close>, from \<open>os.totalmem()\<close>, \<open>os.freemem()\<close> (integer byte counts),
  the platform and the file system.
\<close>

definition getMemoryUsage :: "int \<Rightarrow> int \<Rightarrow> string \<Rightarrow> file_system \<Rightarrow> mem_info" where
  "getMemoryUsage totalMemory freeMemory platform readFile =
     (let usedMemory = totalMemory - freeMemory;
          memInfo = \<lparr> mem_total = to_MB totalMemory,
                      mem_free = to_MB freeMemory,
                      mem_used = to_MB usedMemory,
                      mem_percentage =
                        math_round (num_mul (num_div (of_integer usedMemory) (of_integer totalMemory)) (Fin 100)),
                      mem_available = Absent, mem_buffers = Absent, mem_cached = Absent,
                      mem_swapTotal = Absent, mem_swapFree = Absent, mem_swapUsed = Absent \<rparr>
      in if platform = ''linux''
         then (case readFile ''/proc/meminfo'' of
                 None \<Rightarrow> memInfo
               | Some meminfo \<Rightarrow>
                   (let lines = split_char (CHR 0x0A) meminfo;
                        swapTotal = getMemValue lines ''SwapTotal:'';
                        swapFree = getMemValue lines ''SwapFree:''
                    in memInfo \<lparr> mem_available := Present (getMemValue lines ''MemAvailable:''),
                                 mem_buffers := Present (getMemValue lines ''Buffers:''),
                                 mem_cached := Present (getMemValue lines ''Cached:''),
                                 mem_swapTotal := Present swapTotal,
                                 mem_swapFree := Present swapFree,
                                 mem_swapUsed := Present (num_sub swapTotal swapFree) \<rparr>))
         else memInfo)"

section \<open>Process table collector (\<open>server/src/utils/processes.js\<close>)\<close>

text \<open>
  Two services of the JavaScript runtime are parameters of the model:
  \<open>parseFloat\<close> (decimal text to binary64) and \<open>String.prototype.localeCompare\<close>
  (the collation of the host's locale).
\<close>

record runtime =
  rt_parseFloat :: "string \<Rightarrow> number"
  rt_localeCompare :: "string \<Rightarrow> string \<Rightarrow> number"

text \<open>
  A process object. The three parsers build objects of three shapes; a key that a
  parser does not write is \<open>Absent\<close>.
\<close>

record process =
  p_pid :: number
  p_ppid :: "number field"
  p_user :: string
  p_cpu :: number
  p_memory :: number
  p_memoryMB :: "number field"
  p_vsz :: "number field"
  p_rss :: "number field"
  p_status :: "string field"
  p_start :: "string field"
  p_time :: "string field"
  p_name :: string
  p_command :: string
  p_sessionName :: "string field"
  p_sessionId :: "number field"

subsection \<open>\<open>Array.prototype.sort\<close> and \<open>slice\<close>\<close>

text \<open>
  \<open>sort\<close> is stable, and a comparator result that is \<open>NaN\<close> counts as zero. For a
  consistent comparator the result is the stable sorted permutation, which stable
  insertion sort computes; for an inconsistent comparator the language leaves the
  order to the implementation, and \<open>array_sort\<close> says nothing about the engine. The
  properties below use it only where the comparator is consistent on the records
  compared.
\<close>

fun is_neg :: "number \<Rightarrow> bool" where
  "is_neg NInf = True"
| "is_neg (Fin x) = (x < 0)"
| "is_neg _ = False"

fun insert_sorted :: "('a \<Rightarrow> 'a \<Rightarrow> number) \<Rightarrow> 'a \<Rightarrow> 'a list \<Rightarrow> 'a list" where
  "insert_sorted cmp x [] = [x]"
| "insert_sorted cmp x (y # ys) =
     (if is_neg (cmp y x) then y # insert_sorted cmp x ys else x # y # ys)"

definition array_sort :: "('a \<Rightarrow> 'a \<Rightarrow> number) \<Rightarrow> 'a list \<Rightarrow> 'a list" where
  "array_sort cmp xs = foldr (insert_sorted cmp) xs []"

text \<open>\<open>xs.slice(0, limit)\<close> for an integer limit; a negative limit counts from the end.\<close>

definition slice0 :: "int \<Rightarrow> 'a list \<Rightarrow> 'a list" where
  "slice0 limit xs =
     (if 0 \<le> limit then take (nat limit) xs else take (length xs - nat (- limit)) xs)"

subsection \<open>POSIX: \<open>parseUnixProcesses\<close>\<close>

text \<open>\<open>calculateMemoryMB(vsz, rss)\<close>.\<close>

definition calculateMemoryMB :: "string \<Rightarrow> string \<Rightarrow> number" where
  "calculateMemoryMB vsz rss =
     (let rssKB = num_or (parseInt rss) (Fin 0) in math_round (num_div rssKB (Fin 1024)))"

text \<open>The object built from the columns of one \<open>ps aux\<close> line (at least 11 columns).\<close>

definition aux_process :: "runtime \<Rightarrow> string list \<Rightarrow> process" where
  "aux_process rt parts =
     \<lparr> p_pid = parseInt (parts ! 1),
       p_ppid = Present (Fin 0),
       p_user = parts ! 0,
       p_cpu = num_or (rt_parseFloat rt (parts ! 2)) (Fin 0),
       p_memory = num_or (rt_parseFloat rt (parts ! 3)) (Fin 0),
       p_memoryMB = Present (calculateMemoryMB (parts ! 4) (parts ! 5)),
       p_vsz = Present (num_or (parseInt (parts ! 4)) (Fin 0)),
       p_rss = Present (num_or (parseInt (parts ! 5)) (Fin 0)),
       p_status = Present (str_or (parts ! 7) ''unknown''),
       p_start = Present (str_or (parts ! 8) []),
       p_time = Present (str_or (parts ! 9) []),
       p_name = str_or (parts ! 10) ''unknown'',
       p_command = join_sp (drop 10 parts),
       p_sessionName = Absent,
       p_sessionId = Absent \<rparr>"

text \<open>The object built from the columns of a line in the other formats (at least 6 columns).\<close>

definition other_process :: "runtime \<Rightarrow> string list \<Rightarrow> process" where
  "other_process rt parts =
     \<lparr> p_pid = parseInt (parts ! 0),
       p_ppid = Present (num_or (parseInt (parts ! 1)) (Fin 0)),
       p_user = str_or (parts ! 2) ''unknown'',
       p_cpu = num_or (rt_parseFloat rt (parts ! 3)) (Fin 0),
       p_memory = num_or (rt_parseFloat rt (parts ! 4)) (Fin 0),
       p_memoryMB = Absent,
       p_vsz = Absent,
       p_rss = Absent,
       p_status = Absent,
       p_start = Absent,
       p_time = Absent,
       p_name = str_or (parts ! 5) ''unknown'',
       p_command = str_or (join_sp (drop 6 parts)) (parts ! 5),
       p_sessionName = Absent,
       p_sessionId = Absent \<rparr>"

text \<open>
  The body of the loop over the lines: \<open>None\<close> where nothing is pushed (blank line,
  too few columns, falsy pid).
\<close>

definition unix_line :: "runtime \<Rightarrow> string \<Rightarrow> string \<Rightarrow> process option" where
  "unix_line rt commandUsed raw =
     (let line = trim raw
      in if line = [] then None
         else
           (let parts = split_ws line;
                process =
                  (if str_includes commandUsed ''aux''
                   then (if 11 \<le> length parts then Some (aux_process rt parts) else None)
                   else (if 6 \<le> length parts then Some (other_process rt parts) else None))
            in case process of
                 None \<Rightarrow> None
               | Some pr \<Rightarrow> if truthy_num (p_pid pr) then Some pr else None))"

text \<open>The comparator of the POSIX path.\<close>

definition unix_compare :: "runtime \<Rightarrow> string \<Rightarrow> process \<Rightarrow> process \<Rightarrow> number" where
  "unix_compare rt sortBy a b =
     (if sortBy = ''memory'' then num_sub (num_or (p_memory b) (Fin 0)) (num_or (p_memory a) (Fin 0))
      else if sortBy = ''name'' then rt_localeCompare rt (str_or (p_name a) []) (str_or (p_name b) [])
      else if sortBy = ''pid'' then num_sub (p_pid a) (p_pid b)
      else num_sub (num_or (p_cpu b) (Fin 0)) (num_or (p_cpu a) (Fin 0)))"

definition parseUnixProcesses :: "runtime \<Rightarrow> string \<Rightarrow> int \<Rightarrow> string \<Rightarrow> string \<Rightarrow> process list" where
  "parseUnixProcesses rt stdout limit sortBy commandUsed =
     (let lines = split_char (CHR 0x0A) (trim stdout);
          processes = List.map_filter (unix_line rt commandUsed) (tl lines)
      in slice0 limit (array_sort (unix_compare rt sortBy) processes))"

subsection \<open>POSIX: \<open>getUnixProcesses\<close>\<close>

text \<open>
  \<open>execAsync\<close> is the shell at the time of the call: the standard output of a
  command, or the error it is rejected with.
\<close>

type_synonym shell = "string \<Rightarrow> js_error + string"

definition commands :: "string list" where
  "commands = [''ps aux --sort=-%cpu'', ''ps aux'', ''ps -eo pid,ppid,user,cpu,pmem,comm,args'', ''ps -A'']"

text \<open>The loop over the candidate commands: the first that succeeds ends it.\<close>

fun try_commands :: "shell \<Rightarrow> string list \<Rightarrow> string \<times> string" where
  "try_commands exec [] = ([], [])"
| "try_commands exec (cmd # cmds) =
     (case exec cmd of
        Inr out \<Rightarrow> (out, cmd)
      | Inl e \<Rightarrow> try_commands exec cmds)"

definition getUnixProcesses :: "runtime \<Rightarrow> shell \<Rightarrow> int \<Rightarrow> string \<Rightarrow> js_error + process list" where
  "getUnixProcesses rt exec limit sortBy =
     (case try_commands exec commands of
        (stdout, commandUsed) \<Rightarrow>
          if stdout = [] then Inl (Error ''No ps command succeeded'')
          else Inr (parseUnixProcesses rt stdout limit sortBy commandUsed))"

subsection \<open>Windows: \<open>getWindowsProcesses\<close>\<close>

text \<open>The body of the loop over the lines of \<open>tasklist /FO CSV\<close>.\<close>

definition windows_line :: "string \<Rightarrow> process option" where
  "windows_line raw =
     (let line = trim raw
      in if line = [] then None
         else
           (let parts = map (filter (\<lambda>c. c \<noteq> CHR 0x22))
                            (split_str [CHR 0x22, CHR '','', CHR 0x22] line)
            in if 5 \<le> length parts
               then
                 (let memoryStr = filter (\<lambda>c. c \<noteq> CHR '','' \<and> \<not> is_space c) (parts ! 4);
                      memoryKB = num_or (parseInt memoryStr) (Fin 0)
                  in Some \<lparr> p_pid = parseInt (parts ! 1),
                            p_ppid = Absent,
                            p_user = ''unknown'',
                            p_cpu = Fin 0,
                            p_memory = memoryKB,
                            p_memoryMB = Present (math_round (num_div memoryKB (Fin 1024))),
                            p_vsz = Absent,
                            p_rss = Absent,
                            p_status = Absent,
                            p_start = Absent,
                            p_time = Absent,
                            p_name = parts ! 0,
                            p_command = parts ! 0,
                            p_sessionName = Present (parts ! 2),
                            p_sessionId = Present (num_or (parseInt (parts ! 3)) (Fin 0)) \<rparr>)
               else None))"

text \<open>The comparator of the Windows path.\<close>

definition windows_compare :: "runtime \<Rightarrow> string \<Rightarrow> process \<Rightarrow> process \<Rightarrow> number" where
  "windows_compare rt sortBy a b =
     (if sortBy = ''memory'' then num_sub (p_memory b) (p_memory a)
      else if sortBy = ''name'' then rt_localeCompare rt (p_name a) (p_name b)
      else if sortBy = ''pid'' then num_sub (p_pid a) (p_pid b)
      else num_sub (p_memory b) (p_memory a))"

definition getWindowsProcesses :: "runtime \<Rightarrow> shell \<Rightarrow> int \<Rightarrow> string \<Rightarrow> js_error + process list" where
  "getWindowsProcesses rt exec limit sortBy =
     (case exec ''tasklist /FO CSV'' of
        Inl e \<Rightarrow> Inl e
      | Inr stdout \<Rightarrow>
          (let lines = split_char (CHR 0x0A) (trim stdout);
               processes = List.map_filter windows_line (tl lines)
           in Inr (slice0 limit (array_sort (windows_compare rt sortBy) processes))))"

subsection \<open>\<open>getProcessList\<close>\<close>

text \<open>
  What the fallback reads from the running Node.js process. An unset environment
  variable is the empty string (both are falsy).
\<close>

record node_process =
  np_pid :: int
  np_ppid :: int
  np_rss :: int
  np_env_USER :: string
  np_env_USERNAME :: string
  np_argv :: "string list"

definition fallback_process :: "node_process \<Rightarrow> process" where
  "fallback_process np =
     \<lparr> p_pid = of_integer (np_pid np),
       p_ppid = Present (num_or (of_integer (np_ppid np)) (Fin 0)),
       p_user = str_or (np_env_USER np) (str_or (np_env_USERNAME np) ''unknown''),
       p_cpu = Fin 0,
       p_memory = to_MB (np_rss np),
       p_memoryMB = Absent,
       p_vsz = Absent,
       p_rss = Absent,
       p_status = Present ''running'',
       p_start = Absent,
       p_time = Absent,
       p_name = ''node'',
       p_command = join_sp (np_argv np),
       p_sessionName = Absent,
       p_sessionId = Absent \<rparr>"

definition getProcessList ::
  "runtime \<Rightarrow> string \<Rightarrow> shell \<Rightarrow> node_process \<Rightarrow> int \<Rightarrow> string \<Rightarrow> process list" where
  "getProcessList rt platform exec np limit sortBy =
     (case (if platform = ''win32'' then getWindowsProcesses rt exec limit sortBy
            else getUnixProcesses rt exec limit sortBy) of
        Inr processes \<Rightarrow> processes
      | Inl error \<Rightarrow> [fallback_process np])"

section \<open>Broadcast scheduler and registry (\<open>server/src/utils/monitor.js\<close>)\<close>

subsection \<open>Messages\<close>

text \<open>
  The outcome of a promise under \<open>Promise.allSettled\<close>. Of a rejection the code reads
  only \<open>reason?.message\<close>: \<open>None\<close> where the reason has no message.
\<close>

datatype 'a settled = Fulfilled 'a | Rejected "string option"

text \<open>
  The \<open>systemUpdate\<close> object. The broadcast path writes all six keys, the on-demand
  path only the first four.
\<close>

record update_data =
  u_type :: string
  u_timestamp :: string
  u_cpu :: "cpu_info field"
  u_memory :: "mem_info field"
  u_processes :: "process list field"
  u_errors :: "string list field"

text \<open>\<open>status === 'fulfilled' ? value : null\<close>.\<close>

fun value_or_null :: "'a settled \<Rightarrow> 'a field" where
  "value_or_null (Fulfilled v) = Present v"
| "value_or_null (Rejected r) = Null"

text \<open>\<open>status === 'rejected' ? reason?.message : null\<close>.\<close>

fun rejection_message :: "'a settled \<Rightarrow> string option" where
  "rejection_message (Fulfilled v) = None"
| "rejection_message (Rejected r) = r"

text \<open>\<open>.filter(Boolean)\<close> on the three entries: \<open>null\<close>, \<open>undefined\<close> and the empty string go.\<close>

definition filter_Boolean :: "string option list \<Rightarrow> string list" where
  "filter_Boolean xs = List.map_filter (\<lambda>x. case x of None \<Rightarrow> None | Some m \<Rightarrow> if m = [] then None else Some m) xs"

subsection \<open>The world of one handler run\<close>

text \<open>
  What a handler run observes from outside: how the three collector promises settle,
  the clock, and for each socket whether \<open>ws.send\<close> throws (with which message).
\<close>

record world =
  w_cpuData :: "cpu_info settled"
  w_memoryData :: "mem_info settled"
  w_topProcesses :: "process list settled"
  w_now :: string
  w_send_throws :: "nat \<Rightarrow> string option"

subsection \<open>State\<close>

text \<open>
  Sockets are objects with identity; a natural number names one. The code writes
  the property \<open>subscribed\<close> on them and reads \<open>readyState\<close>, which the WebSocket
  library maintains. \<open>connectedClients\<close> is a \<open>Set\<close>: its elements in insertion order,
  without repetition.

  A run of a handler is one transition. The two asynchronous functions wait for the
  collectors before they send; the world of the run says how the collectors settle
  and which sends throw, and the loop over the sockets is defined, and its
  properties are proved, for any list of sockets and any state at sending time.
\<close>

record socket =
  ws_subscribed :: bool
  ws_readyState :: nat

record monitor_state =
  connectedClients :: "nat list"
  sockets :: "nat \<Rightarrow> socket"
  monitoringInterval :: bool

text \<open>
  What a handler run does to the outside: a collector is called, \<open>ws.send\<close> returns
  (\<open>Sent\<close>) or throws and the \<open>catch\<close> around it reports the message (\<open>SendFailed\<close>),
  \<open>console.warn\<close>, \<open>console.log\<close>.
\<close>

datatype collector = CPUUsage | MemoryUsage | ProcessList int string

datatype effect =
    Call collector
  | Sent nat update_data
  | SendFailed nat string
  | Warned string
  | Logged string

definition set_add :: "nat \<Rightarrow> nat list \<Rightarrow> nat list" where
  "set_add ws cs = (if ws \<in> set cs then cs else cs @ [ws])"

definition set_delete :: "nat \<Rightarrow> nat list \<Rightarrow> nat list" where
  "set_delete ws cs = removeAll ws cs"

subsection \<open>\<open>broadcastSystemUpdate\<close>\<close>

definition subscribedClients :: "monitor_state \<Rightarrow> nat list" where
  "subscribedClients st = filter (\<lambda>ws. ws_subscribed (sockets st ws)) (connectedClients st)"

definition broadcast_data :: "world \<Rightarrow> update_data" where
  "broadcast_data w =
     \<lparr> u_type = ''systemUpdate'',
       u_timestamp = w_now w,
       u_cpu = value_or_null (w_cpuData w),
       u_memory = value_or_null (w_memoryData w),
       u_processes = Present (case w_topProcesses w of Fulfilled v \<Rightarrow> v | Rejected r \<Rightarrow> []),
       u_errors = Present (filter_Boolean
                    [rejection_message (w_cpuData w),
                     rejection_message (w_memoryData w),
                     rejection_message (w_topProcesses w)]) \<rparr>"

text \<open>The \<open>forEach\<close> over the subscribed sockets, with its \<open>try\<close>/\<open>catch\<close> around each send.\<close>

fun send_each :: "world \<Rightarrow> update_data \<Rightarrow> nat list \<Rightarrow> monitor_state \<Rightarrow> monitor_state \<times> effect list" where
  "send_each w updateData [] st = (st, [])"
| "send_each w updateData (ws # rest) st =
     (if ws_readyState (sockets st ws) = 1
      then (case w_send_throws w ws of
              None \<Rightarrow>
                (case send_each w updateData rest st of
                   (st', effs) \<Rightarrow> (st', Sent ws updateData # effs))
            | Some msg \<Rightarrow>
                (case send_each w updateData rest
                        (st \<lparr> connectedClients := set_delete ws (connectedClients st) \<rparr>) of
                   (st', effs) \<Rightarrow> (st', SendFailed ws msg # effs)))
      else send_each w updateData rest st)"

definition broadcastSystemUpdate :: "world \<Rightarrow> monitor_state \<Rightarrow> monitor_state \<times> effect list" where
  "broadcastSystemUpdate w st =
     (let subs = subscribedClients st
      in if length subs = 0 then (st, [])
         else (case send_each w (broadcast_data w) subs st of
                 (st', effs) \<Rightarrow>
                   (st', [Call CPUUsage, Call MemoryUsage, Call (ProcessList 10 ''cpu'')] @ effs)))"

text \<open>The callback of the interval timer.\<close>

definition tick :: "world \<Rightarrow> monitor_state \<Rightarrow> monitor_state \<times> effect list" where
  "tick w st =
     (if length (connectedClients st) = 0 then (st, [])
      else broadcastSystemUpdate w st)"

subsection \<open>\<open>sendSystemUpdate\<close> and \<open>handleClientMessage\<close>\<close>

definition request_data :: "world \<Rightarrow> update_data" where
  "request_data w =
     \<lparr> u_type = ''systemUpdate'',
       u_timestamp = w_now w,
       u_cpu = value_or_null (w_cpuData w),
       u_memory = value_or_null (w_memoryData w),
       u_processes = Absent,
       u_errors = Absent \<rparr>"

definition sendSystemUpdate :: "world \<Rightarrow> nat \<Rightarrow> monitor_state \<Rightarrow> monitor_state \<times> effect list" where
  "sendSystemUpdate w ws st =
     (if ws_readyState (sockets st ws) \<noteq> 1 then (st, [])
      else (st, [Call CPUUsage, Call MemoryUsage] @
                (case w_send_throws w ws of
                   None \<Rightarrow> [Sent ws (request_data w)]
                 | Some msg \<Rightarrow> [SendFailed ws msg])))"

text \<open>
  A frame from a client after \<open>JSON.parse\<close>: the three known types, another type,
  or a frame on which parsing or reading \<open>data.type\<close> throws.
\<close>

datatype client_message = Subscribe | Unsubscribe | RequestUpdate | Unknown string | Invalid string

fun handleClientMessage :: "world \<Rightarrow> client_message \<Rightarrow> nat \<Rightarrow> monitor_state \<Rightarrow> monitor_state \<times> effect list" where
  "handleClientMessage w Subscribe ws st =
     (st \<lparr> sockets := (sockets st) (ws := (sockets st ws) \<lparr> ws_subscribed := True \<rparr>) \<rparr>,
      [Logged ''Client subscribed to real-time updates''])"
| "handleClientMessage w Unsubscribe ws st =
     (st \<lparr> sockets := (sockets st) (ws := (sockets st ws) \<lparr> ws_subscribed := False \<rparr>) \<rparr>,
      [Logged ''Client unsubscribed from real-time updates''])"
| "handleClientMessage w RequestUpdate ws st = sendSystemUpdate w ws st"
| "handleClientMessage w (Unknown t) ws st = (st, [Warned (''Unknown message type: '' @ t)])"
| "handleClientMessage w (Invalid m) ws st = (st, [Warned (''Invalid WebSocket message: '' @ m)])"

subsection \<open>Events\<close>

text \<open>
  Everything that runs code of the module: the handlers that \<open>startMonitoring\<close>
  registers, the timer callback, \<open>stopMonitoring\<close>; and the library changing a
  socket's \<open>readyState\<close>.
\<close>

datatype event =
    Connection nat
  | Close nat
  | SocketError nat
  | Message nat client_message
  | Tick
  | Stop
  | ReadyState nat nat

fun step :: "world \<Rightarrow> event \<Rightarrow> monitor_state \<Rightarrow> monitor_state \<times> effect list" where
  "step w (Connection ws) st = (st \<lparr> connectedClients := set_add ws (connectedClients st) \<rparr>, [])"
| "step w (Close ws) st = (st \<lparr> connectedClients := set_delete ws (connectedClients st) \<rparr>, [])"
| "step w (SocketError ws) st = (st \<lparr> connectedClients := set_delete ws (connectedClients st) \<rparr>, [])"
| "step w (Message ws m) st = handleClientMessage w m ws st"
| "step w Tick st = (if monitoringInterval st then tick w st else (st, []))"
| "step w Stop st =
     (if monitoringInterval st
      then (st \<lparr> monitoringInterval := False \<rparr>, [Logged ''System monitoring stopped''])
      else (st, []))"
| "step w (ReadyState ws n) st =
     (st \<lparr> sockets := (sockets st) (ws := (sockets st ws) \<lparr> ws_readyState := n \<rparr>) \<rparr>, [])"

text \<open>The module after \<open>startMonitoring\<close>: no client, the timer running.\<close>

definition startMonitoring :: "monitor_state" where
  "startMonitoring =
     \<lparr> connectedClients = [],
       sockets = (\<lambda>ws. \<lparr> ws_subscribed = False, ws_readyState = 1 \<rparr>),
       monitoringInterval = True \<rparr>"

subsection \<open>The timer callback on a host\<close>

text \<open>
  The world of a broadcast is not free: it is what the three collectors of the
  program make of the host. \<open>getMemoryUsage\<close> catches every read error and
  \<open>getProcessList\<close> catches every error of the platform listing and answers with the
  fallback record, so their promises are always fulfilled; the promise of
  \<open>getCPUUsage\<close> is fulfilled or never settles. \<open>Promise.allSettled\<close> settles once
  all three have settled: \<open>collect\<close> is the world it hands to the code after the
  \<open>await\<close>, or \<open>Inl\<close> where the \<open>await\<close> never resumes.
\<close>

record host =
  hs_cpu :: cpu_host
  hs_totalmem :: int
  hs_freemem :: int
  hs_runtime :: runtime
  hs_exec :: shell
  hs_process :: node_process
  hs_now :: string
  hs_send_throws :: "nat \<Rightarrow> string option"

definition collect :: "host \<Rightarrow> pending + world" where
  "collect h =
     (case getCPUUsage (hs_cpu h) of
        Inl never \<Rightarrow> Inl never
      | Inr cpuData \<Rightarrow>
          Inr \<lparr> w_cpuData = Fulfilled cpuData,
                w_memoryData = Fulfilled (getMemoryUsage (hs_totalmem h) (hs_freemem h)
                                 (h_platform (hs_cpu h)) (h_readFile (hs_cpu h))),
                w_topProcesses = Fulfilled (getProcessList (hs_runtime h) (h_platform (hs_cpu h))
                                   (hs_exec h) (hs_process h) 10 ''cpu''),
                w_now = hs_now h,
                w_send_throws = hs_send_throws h \<rparr>)"

text \<open>
  A run of the timer callback: it finishes, in a new state and with its effects, or
  it is suspended for ever at the \<open>await\<close>, in the state and with the effects reached
  by then, the error being thrown uncaught from the timer callback of
  \<open>getCPUPercent\<close>.
\<close>

datatype handler_run =
    Finished monitor_state "effect list"
  | Suspended monitor_state "effect list" js_error

definition tick_on :: "host \<Rightarrow> monitor_state \<Rightarrow> handler_run" where
  "tick_on h st =
     (if length (connectedClients st) = 0 then Finished st []
      else if length (subscribedClients st) = 0 then Finished st []
      else (case collect h of
              Inl (NeverSettles e) \<Rightarrow>
                Suspended st [Call CPUUsage, Call MemoryUsage, Call (ProcessList 10 ''cpu'')] e
            | Inr w \<Rightarrow> (case tick w st of (st', effs) \<Rightarrow> Finished st' effs)))"

section \<open>Client reconnection manager (\<open>useWebSocket\<close>)\<close>

text \<open>
  The hook's React state (\<open>connected\<close>, \<open>lastUpdate\<close>, \<open>data\<close>) and its refs. Sockets
  and timers are named by numbers drawn from \<open>c_fresh\<close>; \<open>c_timers\<close> holds the timers
  that are set and have neither fired nor been cleared.
\<close>

record ws_client =
  c_connected :: bool
  c_lastUpdate :: "string option"
  c_data :: "string option"
  c_wsRef :: "nat option"
  c_reconnectTimeoutRef :: "nat option"
  c_reconnectAttempts :: nat
  c_timers :: "nat list"
  c_fresh :: nat

definition maxReconnectAttempts :: nat where
  "maxReconnectAttempts = 5"

definition reconnectDelay :: nat where
  "reconnectDelay = 3000"

datatype client_effect =
    NewSocket nat
  | SendIntent nat string
  | SetTimeout nat nat
  | ClearTimeout nat
  | CloseSocket nat

text \<open>A frame from the server: a \<open>systemUpdate\<close> with its timestamp, another type, or unparsable.\<close>

datatype server_message = SystemUpdate string string | OtherMessage | Unparsable

text \<open>\<open>connect\<close>; \<open>ctor_throws\<close> says whether \<open>new WebSocket\<close> throws.\<close>

definition connect :: "bool \<Rightarrow> ws_client \<Rightarrow> ws_client \<times> client_effect list" where
  "connect ctor_throws c =
     (if ctor_throws then (c \<lparr> c_connected := False \<rparr>, [])
      else (c \<lparr> c_wsRef := Some (c_fresh c), c_fresh := Suc (c_fresh c) \<rparr>, [NewSocket (c_fresh c)]))"

definition onopen :: "nat \<Rightarrow> ws_client \<Rightarrow> ws_client \<times> client_effect list" where
  "onopen ws c =
     (c \<lparr> c_connected := True, c_reconnectAttempts := 0 \<rparr>, [SendIntent ws ''subscribe''])"

fun onmessage :: "server_message \<Rightarrow> ws_client \<Rightarrow> ws_client \<times> client_effect list" where
  "onmessage (SystemUpdate timestamp payload) c =
     (c \<lparr> c_data := Some payload, c_lastUpdate := Some timestamp \<rparr>, [])"
| "onmessage m c = (c, [])"

definition onclose :: "nat \<Rightarrow> ws_client \<Rightarrow> ws_client \<times> client_effect list" where
  "onclose ws c =
     (let c1 = c \<lparr> c_connected := False, c_wsRef := None \<rparr>
      in if c_reconnectAttempts c1 < maxReconnectAttempts
         then (c1 \<lparr> c_reconnectAttempts := Suc (c_reconnectAttempts c1),
                    c_reconnectTimeoutRef := Some (c_fresh c1),
                    c_timers := c_timers c1 @ [c_fresh c1],
                    c_fresh := Suc (c_fresh c1) \<rparr>,
               [SetTimeout (c_fresh c1) reconnectDelay])
         else (c1, []))"

definition onerror :: "nat \<Rightarrow> ws_client \<Rightarrow> ws_client \<times> client_effect list" where
  "onerror ws c = (c \<lparr> c_connected := False \<rparr>, [])"

text \<open>A reconnect timer fires: its callback calls \<open>connect\<close>. A cleared timer never fires.\<close>

definition timer_fires :: "bool \<Rightarrow> nat \<Rightarrow> ws_client \<Rightarrow> ws_client \<times> client_effect list" where
  "timer_fires ctor_throws t c =
     (if t \<in> set (c_timers c)
      then connect ctor_throws (c \<lparr> c_timers := removeAll t (c_timers c) \<rparr>)
      else (c, []))"

text \<open>\<open>disconnect\<close>; \<open>is_open\<close> says whether the current socket's state is \<open>OPEN\<close>.\<close>

definition disconnect :: "bool \<Rightarrow> ws_client \<Rightarrow> ws_client \<times> client_effect list" where
  "disconnect is_open c =
     (let (c1, effs1) =
            (case c_reconnectTimeoutRef c of
               None \<Rightarrow> (c, [])
             | Some t \<Rightarrow> (c \<lparr> c_timers := removeAll t (c_timers c), c_reconnectTimeoutRef := None \<rparr>,
                          [ClearTimeout t]));
          (c2, effs2) =
            (case c_wsRef c1 of
               None \<Rightarrow> (c1, [])
             | Some ws \<Rightarrow> (c1 \<lparr> c_wsRef := None \<rparr>,
                           (if is_open then [SendIntent ws ''unsubscribe''] else []) @ [CloseSocket ws]))
      in (c2 \<lparr> c_connected := False \<rparr>, effs1 @ effs2))"

definition requestUpdate :: "bool \<Rightarrow> ws_client \<Rightarrow> ws_client \<times> client_effect list" where
  "requestUpdate is_open c =
     (case c_wsRef c of
        None \<Rightarrow> (c, [])
      | Some ws \<Rightarrow> (c, if is_open then [SendIntent ws ''requestUpdate''] else []))"

text \<open>What the hook returns to its caller, besides the two operations.\<close>

definition exposed :: "ws_client \<Rightarrow> bool \<times> string option \<times> string option" where
  "exposed c = (c_connected c, c_lastUpdate c, c_data c)"

text \<open>The hook on mount, before the effect runs \<open>connect\<close>.\<close>

definition useWebSocket :: ws_client where
  "useWebSocket =
     \<lparr> c_connected = False, c_lastUpdate = None, c_data = None, c_wsRef = None,
       c_reconnectTimeoutRef = None, c_reconnectAttempts = 0, c_timers = [], c_fresh = 0 \<rparr>"

subsection \<open>Runs of the client\<close>

text \<open>
  The callbacks of the hook as events; \<open>MountConnect\<close> and \<open>TimerFires\<close> run \<open>connect\<close>
  with a constructor that does not throw.
\<close>

datatype client_event =
    MountConnect
  | SocketOpens nat
  | SocketCloses nat
  | SocketErrors nat
  | Frame nat server_message
  | TimerFires nat
  | Unmount bool
  | AskUpdate bool

fun client_step :: "client_event \<Rightarrow> ws_client \<Rightarrow> ws_client \<times> client_effect list" where
  "client_step MountConnect c = connect False c"
| "client_step (SocketOpens ws) c = onopen ws c"
| "client_step (SocketCloses ws) c = onclose ws c"
| "client_step (SocketErrors ws) c = onerror ws c"
| "client_step (Frame ws m) c = onmessage m c"
| "client_step (TimerFires t) c = timer_fires False t c"
| "client_step (Unmount is_open) c = disconnect is_open c"
| "client_step (AskUpdate is_open) c = requestUpdate is_open c"

fun client_run :: "client_event list \<Rightarrow> ws_client \<Rightarrow> ws_client \<times> client_effect list" where
  "client_run [] c = (c, [])"
| "client_run (e # es) c =
     (case client_step e c of
        (c1, effs1) \<Rightarrow> (case client_run es c1 of (c2, effs2) \<Rightarrow> (c2, effs1 @ effs2)))"

section \<open>Notions used to state the properties\<close>







section \<open>Concrete inputs\<close>

text \<open>Samples, worlds and states on which the theorems below are exercised.\<close>

definition sample_cpu :: cpu_info where
  "sample_cpu =
     \<lparr> cpu_model = ''Cortex-A53'', cpu_cores = 4, cpu_speed = 1800, cpu_architecture = ''arm64'',
       cpu_usage = Fin 12, cpu_temperature = Absent \<rparr>"

definition sample_memory :: mem_info where
  "sample_memory =
     \<lparr> mem_total = Fin 8192, mem_free = Fin 4097, mem_used = Fin 4096, mem_percentage = Fin 50,
       mem_available = Absent, mem_buffers = Absent, mem_cached = Absent,
       mem_swapTotal = Absent, mem_swapFree = Absent, mem_swapUsed = Absent \<rparr>"

definition sample_processes :: "process list" where
  "sample_processes =
     [fallback_process \<lparr> np_pid = 4242, np_ppid = 1, np_rss = 52428800, np_env_USER = ''u0_a1'',
                          np_env_USERNAME = [], np_argv = [''node'', ''src/index.js''] \<rparr>]"

text \<open>All three collectors succeed and no send throws.\<close>

definition world_ok :: world where
  "world_ok =
     \<lparr> w_cpuData = Fulfilled sample_cpu, w_memoryData = Fulfilled sample_memory,
       w_topProcesses = Fulfilled sample_processes, w_now = ''2024-05-01T10:00:00.000Z'',
       w_send_throws = (\<lambda>ws. None) \<rparr>"

text \<open>
  The CPU promise is rejected with a message and the other two are fulfilled: the
  case the \<open>rejected\<close> branches of the two senders are written for.
\<close>

definition world_cpu_fails :: world where
  "world_cpu_fails = world_ok \<lparr> w_cpuData := Rejected (Some ''os.cpus is not available'') \<rparr>"

text \<open>Sending to socket 1 throws.\<close>

definition world_send1_throws :: world where
  "world_send1_throws = world_ok \<lparr> w_send_throws := (\<lambda>ws. if ws = 1 then Some ''socket hang up'' else None) \<rparr>"

text \<open>Three clients connect; none has subscribed.\<close>

definition state_unsubscribed :: monitor_state where
  "state_unsubscribed = startMonitoring \<lparr> connectedClients := [1, 2, 3] \<rparr>"

text \<open>Three subscribed clients; the third is no longer open (\<open>readyState\<close> 2, closing).\<close>

definition state_subscribed :: monitor_state where
  "state_subscribed =
     \<lparr> connectedClients = [1, 2, 3],
       sockets = (\<lambda>ws. \<lparr> ws_subscribed = True, ws_readyState = (if ws = 3 then 2 else 1) \<rparr>),
       monitoringInterval = True \<rparr>"

text \<open>
  The server is down. The first socket (0) closes, the reconnect timer (1) fires and
  opens socket 2, which closes, and so on: \<open>first_failure\<close> ends with the first close,
  \<open>six_failures\<close> with the sixth.
\<close>

definition first_failure :: "client_event list" where
  "first_failure = [MountConnect, SocketCloses 0]"

definition six_failures :: "client_event list" where
  "six_failures =
     [MountConnect, SocketCloses 0, TimerFires 1, SocketCloses 2, TimerFires 3, SocketCloses 4,
      TimerFires 5, SocketCloses 6, TimerFires 7, SocketCloses 8, TimerFires 9, SocketCloses 10]"

text \<open>A client whose socket 0 has just closed for the first time.\<close>

definition client_retrying :: ws_client where
  "client_retrying = fst (client_run first_failure useWebSocket)"

text \<open>A client whose sixth socket in a row has just closed.\<close>

definition client_gave_up :: ws_client where
  "client_gave_up = fst (client_run six_failures useWebSocket)"


text \<open>A file system on which every read throws.\<close>

definition no_files :: file_system where
  "no_files = (\<lambda>path. None)"

text \<open>
  A host with 1 GiB of memory of which 735576064 bytes (701.5 MiB) are free; the
  platform is \<open>android\<close>, as Node.js reports under Termux.
\<close>

definition memory_reading :: mem_info where
  "memory_reading = getMemoryUsage 1073741824 735576064 ''android'' no_files"

text \<open>One core, read twice with no tick in between.\<close>

definition idle_core :: cpu_core where
  "idle_core =
     \<lparr> core_model = ''Cortex-A53'', core_speed = 1800,
       core_times = \<lparr> t_user = 52410, t_nice = 0, t_sys = 31820, t_idle = 905130, t_irq = 0 \<rparr> \<rparr>"

text \<open>The same core 100 ms later: 40 ms in user mode, 60 ms idle.\<close>

definition busy_core :: cpu_core where
  "busy_core =
     \<lparr> core_model = ''Cortex-A53'', core_speed = 1800,
       core_times = \<lparr> t_user = 52450, t_nice = 0, t_sys = 31820, t_idle = 905190, t_irq = 0 \<rparr> \<rparr>"

text \<open>A host on which \<open>os.cpus()\<close> returns the empty array, as under Termux on Android.\<close>

definition host_without_cpus :: cpu_host where
  "host_without_cpus =
     \<lparr> h_cpus = [], h_cpus1 = [], h_cpus2 = [], h_platform = ''android'', h_arch = ''arm64'',
       h_readFile = no_files \<rparr>"

text \<open>One line of \<open>tasklist /FO CSV\<close>: the fields in double quotes, separated by commas.\<close>

definition csv_row :: "string list \<Rightarrow> string" where
  "csv_row cols =
     concat (map (\<lambda>f. CHR 0x22 # f @ [CHR 0x22, CHR '','']) (butlast cols)) @
     CHR 0x22 # last cols @ [CHR 0x22, CHR 0x0D, CHR 0x0A]"

text \<open>The first lines of the listing on any Windows host: process 0 is the idle process.\<close>

definition tasklist_output :: string where
  "tasklist_output =
     csv_row [''Image Name'', ''PID'', ''Session Name'', ''Session#'', ''Mem Usage''] @
     csv_row [''System Idle Process'', ''0'', ''Services'', ''0'', ''8 K''] @
     csv_row [''System'', ''4'', ''Services'', ''0'', ''2,140 K''] @
     csv_row [''node.exe'', ''5120'', ''Console'', ''1'', ''48,332 K'']"

text \<open>A shell on which only the given command succeeds, with the given output.\<close>

definition shell_with :: "string \<Rightarrow> string \<Rightarrow> shell" where
  "shell_with cmd out = (\<lambda>c. if c = cmd then Inr out else Inl (Error ''Command failed''))"

text \<open>
  A runtime for the examples: \<open>parseFloat\<close> on the decimal texts that occur in them,
  and a collation that compares strings character by character.
\<close>

definition sample_runtime :: runtime where
  "sample_runtime =
     \<lparr> rt_parseFloat =
         (\<lambda>s. case map_of [(''90.0'', 90), (''10.0'', 10), (''50.0'', 50), (''0.0'', 0),
                            (''0.5'', 1 / 2), (''1.5'', 3 / 2), (''2.5'', 5 / 2)] s of
                 None \<Rightarrow> NaN
               | Some v \<Rightarrow> Fin v),
       rt_localeCompare = (\<lambda>a b. if a < b then Fin (- 1) else if b < a then Fin 1 else Fin 0) \<rparr>"

text \<open>Output of \<open>ps aux\<close>: three processes using 90, 10 and 50 percent of the CPU.\<close>

definition ps_aux_output :: string where
  "ps_aux_output =
     ''USER PID %CPU %MEM VSZ RSS TTY STAT START TIME COMMAND'' @ [CHR 0x0A] @
     ''root 1 90.0 0.5 10240 2048 ? Ss 10:00 0:01 /sbin/init'' @ [CHR 0x0A] @
     ''u0_a1 2 10.0 1.5 20480 1024 pts/0 S 10:00 0:00 sh'' @ [CHR 0x0A] @
     ''u0_a1 3 50.0 2.5 30720 4096 pts/0 R 10:01 0:05 node src/index.js'' @ [CHR 0x0A]"

text \<open>Output of \<open>ps aux\<close> with a line whose pid column reads \<open>-5\<close>, and one that reads \<open>0\<close>.\<close>

definition ps_aux_odd_pids :: string where
  "ps_aux_odd_pids =
     ''USER PID %CPU %MEM VSZ RSS TTY STAT START TIME COMMAND'' @ [CHR 0x0A] @
     ''root -5 0.0 0.5 10240 2048 ? Ss 10:00 0:01 a'' @ [CHR 0x0A] @
     ''root 0 0.0 0.5 10240 2048 ? Ss 10:00 0:01 b'' @ [CHR 0x0A] @
     ''root x7 0.0 0.5 10240 2048 ? Ss 10:00 0:01 c'' @ [CHR 0x0A]"

text \<open>
  A host with two cores online when \<open>getCPUPercent\<close> takes its first reading and one
  core online 100 ms later, when the timer callback takes the second (a core is taken
  offline in between, as the CPU hotplug of a power-saving kernel does).
\<close>

definition host_losing_core :: cpu_host where
  "host_losing_core =
     \<lparr> h_cpus = [idle_core, idle_core], h_cpus1 = [idle_core, idle_core], h_cpus2 = [busy_core],
       h_platform = ''android'', h_arch = ''arm64'', h_readFile = no_files \<rparr>"

text \<open>
  The rest of a host around a CPU: 1 GiB of memory, a shell on which \<open>ps aux\<close> works,
  the server process, the clock, and sockets whose send never throws.
\<close>

definition host_with :: "cpu_host \<Rightarrow> host" where
  "host_with c =
     \<lparr> hs_cpu = c, hs_totalmem = 1073741824, hs_freemem = 735576064,
       hs_runtime = sample_runtime, hs_exec = shell_with ''ps aux'' ps_aux_output,
       hs_process = \<lparr> np_pid = 4242, np_ppid = 1, np_rss = 52428800, np_env_USER = ''u0_a1'',
                      np_env_USERNAME = [], np_argv = [''node'', ''src/index.js''] \<rparr>,
       hs_now = ''2024-05-01T10:00:00.000Z'', hs_send_throws = (\<lambda>ws. None) \<rparr>"

section \<open>Properties of the number model\<close>

subsection \<open>Evaluation on numerals\<close>

lemma bitlen_nat_0: "bitlen_nat 0 = 0"
  by (simp add: bitlen_nat.simps)

lemma bitlen_nat_One: "bitlen_nat (Suc 0) = 1"
  by (subst bitlen_nat.simps) (simp add: bitlen_nat_0)

lemma bitlen_nat_1: "bitlen_nat 1 = 1"
  using bitlen_nat_One by simp

lemma bitlen_nat_Bit0: "bitlen_nat (numeral (Num.Bit0 n)) = Suc (bitlen_nat (numeral n))"
  by (subst bitlen_nat.simps) simp

lemma bitlen_nat_Bit1: "bitlen_nat (numeral (Num.Bit1 n)) = Suc (bitlen_nat (numeral n))"
  by (subst bitlen_nat.simps) simp

lemmas dbl_eval = to_double_def ilog2_def round_even_def pow2_def Let_def
  bitlen_nat_0 bitlen_nat_1 bitlen_nat_One bitlen_nat_Bit0 bitlen_nat_Bit1

subsection \<open>The leading exponent\<close>

lemma bitlen_nat_bounds:
  "0 < n \<Longrightarrow> 2 ^ (bitlen_nat n - 1) \<le> n \<and> n < 2 ^ bitlen_nat n"
proof (induction n rule: bitlen_nat.induct)
  case (1 n)
  show ?case
  proof (cases "n div 2 = 0")
    case True
    with "1.prems" have "n = 1" by (simp add: div_eq_0_iff)
    then show ?thesis
      by (simp add: bitlen_nat_One)
  next
    case False
    then have pos: "0 < n div 2" by simp
    from "1.IH" [OF _ pos] "1.prems"
    have ih: "2 ^ (bitlen_nat (n div 2) - 1) \<le> n div 2" "n div 2 < 2 ^ bitlen_nat (n div 2)"
      by auto
    have bl: "bitlen_nat n = Suc (bitlen_nat (n div 2))"
      using "1.prems" by (subst bitlen_nat.simps) simp
    have blpos: "0 < bitlen_nat (n div 2)"
      using pos by (subst bitlen_nat.simps) simp
    then obtain k where k: "bitlen_nat (n div 2) = Suc k"
      by (cases "bitlen_nat (n div 2)") auto
    from ih k have "2 ^ k \<le> n div 2" "n div 2 < 2 ^ Suc k" by simp_all
    then have "2 ^ Suc k \<le> n" "n < 2 ^ Suc (Suc k)" by simp_all
    then show ?thesis by (simp add: bl k)
  qed
qed

subsection \<open>Powers of two\<close>

lemma pow2_powi: "pow2 q = 2 powi q"
  by (simp add: pow2_def power_int_def power_one_over field_simps)

lemma pow2_pos: "0 < pow2 q"
  by (simp add: pow2_powi)

lemma pow2_add: "pow2 (p + q) = pow2 p * pow2 q"
  by (simp add: pow2_powi power_int_add)

lemma pow2_minus: "pow2 (- q) = 1 / pow2 q"
  by (simp add: pow2_powi power_int_minus field_simps)

lemma pow2_nat: "pow2 (int n) = 2 ^ n"
  by (simp add: pow2_def)

lemma pow2_mono: "p \<le> q \<Longrightarrow> pow2 p \<le> pow2 q"
  by (simp add: pow2_powi power_int_increasing)

subsection \<open>Bounds of the leading exponent\<close>

lemma ilog2_bounds:
  assumes "0 < a"
  shows "pow2 (ilog2 a) \<le> a \<and> a < pow2 (ilog2 a + 1)"
proof (cases "1 \<le> a")
  case True
  define n where "n = nat \<lfloor>a\<rfloor>"
  have npos: "0 < n" using True by (simp add: n_def)
  have e: "ilog2 a = int (bitlen_nat n) - 1"
    using True by (simp add: ilog2_def n_def)
  from bitlen_nat_bounds [OF npos] have b: "2 ^ (bitlen_nat n - 1) \<le> n" "n < 2 ^ bitlen_nat n"
    by auto
  have blpos: "0 < bitlen_nat n"
    using npos by (subst bitlen_nat.simps) simp
  have e': "ilog2 a = int (bitlen_nat n - 1)"
    using e blpos by simp
  have fl: "real n \<le> a" "a < real n + 1"
    using True by (simp_all add: n_def)
  have lo: "pow2 (ilog2 a) \<le> a"
  proof -
    have "pow2 (ilog2 a) = 2 ^ (bitlen_nat n - 1)" by (simp add: e' pow2_nat)
    also have "\<dots> \<le> real n" using b(1) by (metis of_nat_le_iff of_nat_numeral of_nat_power)
    finally show ?thesis using fl by simp
  qed
  have hi: "a < pow2 (ilog2 a + 1)"
  proof -
    have "ilog2 a + 1 = int (bitlen_nat n)" using e by simp
    then have "pow2 (ilog2 a + 1) = 2 ^ bitlen_nat n" by (simp add: pow2_nat)
    moreover have "real n + 1 \<le> 2 ^ bitlen_nat n"
    proof -
      from b(2) have "Suc n \<le> 2 ^ bitlen_nat n" by simp
      then have "real (Suc n) \<le> real (2 ^ bitlen_nat n)" by (rule of_nat_mono)
      then show ?thesis by simp
    qed
    ultimately show ?thesis using fl by simp
  qed
  from lo hi show ?thesis ..
next
  case False
  with assms have a1: "a < 1" "0 < a" by simp_all
  define y where "y = 1 / a"
  have y1: "1 < y" using a1 by (simp add: y_def)
  define n where "n = nat (\<lceil>y\<rceil> - 1)"
  have c2: "2 \<le> \<lceil>y\<rceil>" using y1 by linarith
  then have npos: "0 < n" by (simp add: n_def)
  have nint: "int n = \<lceil>y\<rceil> - 1" using c2 by (simp add: n_def)
  have e: "ilog2 a = - int (bitlen_nat n)"
    using False by (simp add: ilog2_def n_def y_def)
  from bitlen_nat_bounds [OF npos] have b: "2 ^ (bitlen_nat n - 1) \<le> n" "n < 2 ^ bitlen_nat n"
    by auto
  have blpos: "0 < bitlen_nat n"
    using npos by (subst bitlen_nat.simps) simp
  have yn: "real n < y" "y \<le> real n + 1"
  proof -
    have "real_of_int (\<lceil>y\<rceil> - 1) < y" by linarith
    then show "real n < y" using nint by (metis of_int_of_nat_eq)
    have "y \<le> real_of_int \<lceil>y\<rceil>" by linarith
    then show "y \<le> real n + 1" using nint by (metis add.commute diff_add_cancel of_int_1 of_int_add of_int_of_nat_eq add.commute)
  qed
  have lo: "pow2 (ilog2 a) \<le> a"
  proof -
    from b(2) have "Suc n \<le> 2 ^ bitlen_nat n" by simp
    then have "real (Suc n) \<le> real (2 ^ bitlen_nat n)" by (rule of_nat_mono)
    then have "real n + 1 \<le> 2 ^ bitlen_nat n" by simp
    then have "y \<le> 2 ^ bitlen_nat n" using yn by linarith
    then have "1 / a \<le> 2 ^ bitlen_nat n" by (simp add: y_def)
    then have "1 / 2 ^ bitlen_nat n \<le> a"
      using a1 by (simp add: field_simps)
    moreover have "pow2 (ilog2 a) = 1 / 2 ^ bitlen_nat n"
      by (simp add: e pow2_minus pow2_nat)
    ultimately show ?thesis by simp
  qed
  have hi: "a < pow2 (ilog2 a + 1)"
  proof -
    have "2 ^ (bitlen_nat n - 1) \<le> real n"
      using b(1) by (metis of_nat_le_iff of_nat_numeral of_nat_power)
    then have "2 ^ (bitlen_nat n - 1) < y" using yn by linarith
    then have "2 ^ (bitlen_nat n - 1) < 1 / a" by (simp add: y_def)
    then have "a < 1 / 2 ^ (bitlen_nat n - 1)"
      using a1 by (simp add: field_simps)
    moreover have "ilog2 a + 1 = - int (bitlen_nat n - 1)"
      using e blpos by simp
    then have "pow2 (ilog2 a + 1) = 1 / 2 ^ (bitlen_nat n - 1)"
      by (simp add: pow2_minus pow2_nat)
    ultimately show ?thesis by simp
  qed
  from lo hi show ?thesis ..
qed


lemma pow2_strict_mono: "p < q \<Longrightarrow> pow2 p < pow2 q"
  by (simp add: pow2_powi power_int_strict_increasing)

lemma pow2_le_iff: "pow2 p \<le> pow2 q \<longleftrightarrow> p \<le> q"
  by (metis pow2_mono pow2_strict_mono not_le)

lemma pow2_0: "pow2 0 = 1"
  by (simp add: pow2_def)

lemma pow2_of_int: "0 \<le> k \<Longrightarrow> pow2 k = of_int (2 ^ nat k)"
  by (simp add: pow2_def)

subsection \<open>Rounding\<close>

lemma round_even_of_int: "round_even (of_int k) = k"
  by (simp add: round_even_def)

lemma round_even_ge: "of_int k \<le> x \<Longrightarrow> k \<le> round_even x"
proof -
  assume "of_int k \<le> x"
  then have "k \<le> \<lfloor>x\<rfloor>" by (simp add: le_floor_iff)
  moreover have "\<lfloor>x\<rfloor> \<le> round_even x" by (simp add: round_even_def Let_def)
  ultimately show ?thesis by simp
qed

text \<open>The pieces of \<open>to_double\<close> at a non-zero argument.\<close>

lemma to_double_unfold:
  "x \<noteq> 0 \<Longrightarrow>
     to_double x =
       (if 2 ^ 1024 \<le> of_int (round_even (\<bar>x\<bar> * pow2 (- max (ilog2 \<bar>x\<bar> - 52) (- 1074)))) *
                        pow2 (max (ilog2 \<bar>x\<bar> - 52) (- 1074))
        then (if 0 < x then PInf else NInf)
        else Fin (sgn x * (of_int (round_even (\<bar>x\<bar> * pow2 (- max (ilog2 \<bar>x\<bar> - 52) (- 1074)))) *
                           pow2 (max (ilog2 \<bar>x\<bar> - 52) (- 1074)))))"
  by (simp add: to_double_def Let_def)

lemma ilog2_ge: "0 < a \<Longrightarrow> pow2 k \<le> a \<Longrightarrow> k \<le> ilog2 a"
proof -
  assume "0 < a" "pow2 k \<le> a"
  with ilog2_bounds [of a] have "pow2 k < pow2 (ilog2 a + 1)" by simp
  then have "k < ilog2 a + 1" by (metis pow2_mono not_le)
  then show ?thesis by simp
qed

lemma ilog2_less: "0 < a \<Longrightarrow> a < pow2 k \<Longrightarrow> ilog2 a < k"
proof -
  assume "0 < a" "a < pow2 k"
  with ilog2_bounds [of a] have "pow2 (ilog2 a) < pow2 k" by simp
  then show ?thesis by (metis pow2_mono not_le)
qed

text \<open>Rounding does not go below the leading power of two (outside the underflow range).\<close>

lemma mantissa_ge:
  assumes "pow2 (- 1074) \<le> a"
  shows "pow2 (ilog2 a) \<le>
           of_int (round_even (a * pow2 (- max (ilog2 a - 52) (- 1074)))) * pow2 (max (ilog2 a - 52) (- 1074))"
proof -
  define e where "e = ilog2 a"
  define q where "q = max (e - 52) (- 1074)"
  have apos: "0 < a" using assms pow2_pos [of "- 1074"] by linarith
  have "- 1074 \<le> e" unfolding e_def using apos assms by (rule ilog2_ge)
  then have qe: "q \<le> e" by (simp add: q_def)
  define K :: int where "K = 2 ^ nat (e - q)"
  have K: "pow2 (e - q) = of_int K" using qe by (simp add: K_def pow2_of_int)
  have "pow2 e \<le> a" using ilog2_bounds [OF apos] by (simp add: e_def)
  then have "pow2 e * pow2 (- q) \<le> a * pow2 (- q)"
    using pow2_pos [of "- q"] by (simp add: mult_right_mono)
  then have "of_int K \<le> a * pow2 (- q)"
    using K by (simp add: pow2_add [symmetric])
  then have "K \<le> round_even (a * pow2 (- q))" by (rule round_even_ge)
  then have "of_int K * pow2 q \<le> of_int (round_even (a * pow2 (- q))) * pow2 q"
    using pow2_pos [of q] by (simp add: mult_right_mono)
  moreover have "of_int K * pow2 q = pow2 e"
    by (simp add: K [symmetric] pow2_add [symmetric])
  ultimately show ?thesis by (simp add: e_def q_def)
qed

text \<open>The sign of a difference survives rounding: no non-zero multiple of \<open>2^-1074\<close> rounds to zero.\<close>

lemma to_double_pos:
  assumes "pow2 (- 1074) \<le> x"
  shows "to_double x = PInf \<or> (\<exists>v. to_double x = Fin v \<and> pow2 (ilog2 x) \<le> v)"
proof -
  have xpos: "0 < x" using assms pow2_pos [of "- 1074"] by linarith
  then have ax: "\<bar>x\<bar> = x" "sgn x = 1" "x \<noteq> 0" by simp_all
  from mantissa_ge [OF assms] show ?thesis
    by (simp add: to_double_unfold [OF ax(3)] ax xpos)
qed

lemma to_double_neg:
  assumes "x \<le> - pow2 (- 1074)"
  shows "to_double x = NInf \<or> (\<exists>v. to_double x = Fin v \<and> v \<le> - pow2 (ilog2 (- x)))"
proof -
  have xneg: "x < 0" using assms pow2_pos [of "- 1074"] by linarith
  then have ax: "\<bar>x\<bar> = - x" "sgn x = - 1" "x \<noteq> 0" "\<not> 0 < x" by simp_all
  have "pow2 (- 1074) \<le> - x" using assms by simp
  from mantissa_ge [OF this] show ?thesis
    by (simp add: to_double_unfold [OF ax(3)] ax)
qed

text \<open>
  An integer multiple \<open>n * 2^k\<close> with \<open>|n| < 2^53\<close>, at least the least exponent and
  below the overflow threshold, is a binary64 value: rounding returns it.
\<close>

lemma to_double_exact:
  assumes n: "\<bar>n\<bar> < 2 ^ 53" and k: "- 1074 \<le> k" and x: "x = of_int n * pow2 k"
    and small: "\<bar>x\<bar> < 2 ^ 1024"
  shows "to_double x = Fin x"
proof (cases "x = 0")
  case True
  then show ?thesis by (simp add: to_double_def)
next
  case False
  define a where "a = \<bar>x\<bar>"
  define e where "e = ilog2 a"
  define q where "q = max (e - 52) (- 1074)"
  have apos: "0 < a" using False by (simp add: a_def)
  have a: "a = of_int \<bar>n\<bar> * pow2 k"
    using pow2_pos [of k] by (simp add: a_def x abs_mult)
  have "of_int \<bar>n\<bar> < (2::real) ^ 53"
    using n by (metis of_int_less_iff of_int_numeral of_int_power)
  then have "a < 2 ^ 53 * pow2 k"
    using pow2_pos [of k] by (simp add: a)
  also have "\<dots> = pow2 (53 + k)"
  proof -
    have "(2::real) ^ 53 = pow2 53" by (simp add: pow2_def)
    then show ?thesis by (simp only: pow2_add)
  qed
  finally have "e < 53 + k" unfolding e_def using apos by (intro ilog2_less)
  then have qk: "q \<le> k" using k by (simp add: q_def)
  define M :: int where "M = \<bar>n\<bar> * 2 ^ nat (k - q)"
  have "a * pow2 (- q) = of_int \<bar>n\<bar> * pow2 (k - q)"
    by (simp add: a pow2_add [symmetric])
  also have "\<dots> = of_int M" using qk by (simp add: M_def pow2_of_int)
  finally have M: "a * pow2 (- q) = of_int M" .
  then have r: "round_even (a * pow2 (- q)) = M" by (simp add: round_even_of_int)
  have "of_int M * pow2 q = a * (pow2 (- q) * pow2 q)" using M by (simp add: mult.assoc [symmetric])
  also have "\<dots> = a" by (simp add: pow2_add [symmetric] pow2_0)
  finally have v: "of_int (round_even (a * pow2 (- q))) * pow2 q = a" using r by simp
  have "sgn x * a = x" by (simp add: a_def sgn_mult_abs)
  moreover have "\<not> 2 ^ 1024 \<le> a" using small by (simp add: a_def)
  ultimately show ?thesis
    using v by (simp add: to_double_unfold [OF False] a_def [symmetric] e_def [symmetric] q_def [symmetric])
qed


subsection \<open>Integers and idempotence\<close>

lemma to_double_of_int:
  assumes "\<bar>i\<bar> < 2 ^ 53"
  shows "to_double (of_int i) = of_integer i"
proof -
  have "\<bar>real_of_int i\<bar> < 2 ^ 53"
    using assms by (metis of_int_abs of_int_less_iff of_int_numeral of_int_power)
  then have "\<bar>real_of_int i * pow2 0\<bar> < 2 ^ 1024"
    by (simp add: pow2_0)
  with assms have "to_double (of_int i * pow2 0) = Fin (of_int i * pow2 0)"
    by (intro to_double_exact [where n = i and k = 0]) simp_all
  then show ?thesis by (simp add: pow2_0)
qed

lemma to_double_0: "to_double 0 = Fin 0"
  by (simp add: to_double_def)

lemma to_double_1: "to_double 1 = Fin 1"
  using to_double_of_int [of 1] by simp

lemma to_double_numeral:
  "(numeral n :: int) < 2 ^ 53 \<Longrightarrow> to_double (numeral n) = Fin (numeral n)"
  using to_double_of_int [of "numeral n"] by simp

lemma to_double_neg_numeral:
  "(numeral n :: int) < 2 ^ 53 \<Longrightarrow> to_double (- numeral n) = Fin (- numeral n)"
  using to_double_of_int [of "- numeral n"] by simp

lemmas int_dbl = to_double_0 to_double_1 to_double_numeral to_double_neg_numeral






subsection \<open>Comparing by subtraction\<close>










section \<open>Properties of the broadcast scheduler\<close>

subsection \<open>The send loop\<close>

text \<open>The loop writes nothing but the registry: socket objects and timer stay as they are.\<close>

lemma send_each_sockets: "sockets (fst (send_each w u subs st)) = sockets st"
  by (induction subs arbitrary: st) (simp_all add: split_beta split: option.splits)

lemma send_each_interval: "monitoringInterval (fst (send_each w u subs st)) = monitoringInterval st"
  by (induction subs arbitrary: st) (simp_all add: split_beta split: option.splits)

text \<open>The registry after the loop: exactly the visited open sockets whose send threw are gone.\<close>

lemma send_each_clients:
  "connectedClients (fst (send_each w u subs st)) =
     filter (\<lambda>c. \<not> (c \<in> set subs \<and> ws_readyState (sockets st c) = 1 \<and> w_send_throws w c \<noteq> None))
       (connectedClients st)"
proof (induction subs arbitrary: st)
  case Nil
  then show ?case by simp
next
  case (Cons ws rest)
  show ?case
  proof (cases "ws_readyState (sockets st ws) = 1")
    case False
    then show ?thesis
      using Cons.IH [of st] by (auto intro!: filter_cong)
  next
    case is_open: True
    show ?thesis
    proof (cases "w_send_throws w ws")
      case None
      then show ?thesis
        using is_open Cons.IH [of st] by (auto simp: split_beta intro!: filter_cong)
    next
      case (Some msg)
      let ?st1 = "st \<lparr> connectedClients := set_delete ws (connectedClients st) \<rparr>"
      have "connectedClients (fst (send_each w u (ws # rest) st)) =
              connectedClients (fst (send_each w u rest ?st1))"
        using is_open Some by (simp add: split_beta)
      also have "\<dots> = filter (\<lambda>c. \<not> (c \<in> set rest \<and> ws_readyState (sockets st c) = 1 \<and> w_send_throws w c \<noteq> None))
                           (removeAll ws (connectedClients st))"
        using Cons.IH [of ?st1] by (simp add: set_delete_def)
      also have "\<dots> = filter (\<lambda>c. \<not> (c \<in> set (ws # rest) \<and> ws_readyState (sockets st c) = 1 \<and> w_send_throws w c \<noteq> None))
                           (connectedClients st)"
        using is_open Some by (auto simp: removeAll_filter_not_eq intro!: filter_cong)
      finally show ?thesis .
    qed
  qed
qed

text \<open>The messages of the loop: the one object, to each visited open socket whose send returns.\<close>

lemma send_each_sent:
  "Sent x v \<in> set (snd (send_each w u subs st)) \<longleftrightarrow>
     v = u \<and> x \<in> set subs \<and> ws_readyState (sockets st x) = 1 \<and> w_send_throws w x = None"
  by (induction subs arbitrary: st) (auto simp: split_beta split: option.splits)

lemma send_each_no_call: "Call c \<notin> set (snd (send_each w u subs st))"
  by (induction subs arbitrary: st) (simp_all add: split_beta split: option.splits)

lemma send_each_failed:
  "SendFailed x m \<in> set (snd (send_each w u subs st)) \<longleftrightarrow>
     x \<in> set subs \<and> ws_readyState (sockets st x) = 1 \<and> w_send_throws w x = Some m"
  by (induction subs arbitrary: st) (auto simp: split_beta split: option.splits)

subsection \<open>One tick\<close>

text \<open>The timer callback, with the two early returns merged.\<close>

lemma tick_unfold:
  "tick w st =
     (if subscribedClients st = [] then (st, [])
      else (fst (send_each w (broadcast_data w) (subscribedClients st) st),
            [Call CPUUsage, Call MemoryUsage, Call (ProcessList 10 ''cpu'')] @
            snd (send_each w (broadcast_data w) (subscribedClients st) st)))"
  by (auto simp: tick_def broadcastSystemUpdate_def Let_def split_beta subscribedClients_def)

lemma tick_sent:
  "Sent x v \<in> set (snd (tick w st)) \<longleftrightarrow>
     v = broadcast_data w \<and> x \<in> set (subscribedClients st) \<and>
     ws_readyState (sockets st x) = 1 \<and> w_send_throws w x = None"
  by (cases "subscribedClients st = []") (auto simp: tick_unfold send_each_sent)

lemma tick_failed:
  "SendFailed x m \<in> set (snd (tick w st)) \<longleftrightarrow>
     x \<in> set (subscribedClients st) \<and> ws_readyState (sockets st x) = 1 \<and> w_send_throws w x = Some m"
  by (cases "subscribedClients st = []") (auto simp: tick_unfold send_each_failed)

lemma tick_clients:
  "connectedClients (fst (tick w st)) =
     filter (\<lambda>c. \<not> (c \<in> set (subscribedClients st) \<and> ws_readyState (sockets st c) = 1 \<and> w_send_throws w c \<noteq> None))
       (connectedClients st)"
  by (cases "subscribedClients st = []") (simp_all add: tick_unfold send_each_clients)

lemma tick_sockets: "sockets (fst (tick w st)) = sockets st"
  by (simp add: tick_unfold send_each_sockets)

lemma handleClientMessage_clients:
  "connectedClients (fst (handleClientMessage w m ws st)) = connectedClients st"
  by (cases m) (simp_all add: sendSystemUpdate_def)

lemmas sample_defs = world_ok_def world_cpu_fails_def
  world_send1_throws_def state_unsubscribed_def state_subscribed_def startMonitoring_def

subsection \<open>A tick without subscribers\<close>

text \<open>
  Claim C1. On a tick of the broadcast timer, if no channel of the registry is marked
  subscribed, the tick does nothing: the state is unchanged and the run has no effect
  at all, so neither the CPU collector nor the memory collector nor the process-list
  collector is called.
\<close>

theorem tick_idle_without_subscribers:
  "length (subscribedClients st) = 0 \<Longrightarrow>
     step w Tick st = (st, []) \<and> (\<forall>c. Call c \<notin> set (snd (step w Tick st)))"
  by (simp add: tick_def broadcastSystemUpdate_def)

theorem tick_idle_without_subscribers_witness:
  "length (subscribedClients state_unsubscribed) = 0 \<and>
   step world_ok Tick state_unsubscribed = (state_unsubscribed, [])"
  using tick_idle_without_subscribers [of state_unsubscribed world_ok]
  by (simp add: subscribedClients_def state_unsubscribed_def startMonitoring_def)

subsection \<open>Collector failures in the snapshot\<close>

text \<open>
  What the aggregator is written to do with a rejected CPU promise whose reason has a
  message, the other two promises being fulfilled: \<open>cpu\<close> null, \<open>memory\<close> and
  \<open>processes\<close> populated, \<open>errors\<close> that one message.
\<close>

lemma broadcast_data_cpu_rejected:
  assumes "w_cpuData w = Rejected (Some m)" and "m \<noteq> []"
    and "w_memoryData w = Fulfilled mem" and "w_topProcesses w = Fulfilled ps"
  shows "u_cpu (broadcast_data w) = Null \<and> u_memory (broadcast_data w) = Present mem \<and>
         u_processes (broadcast_data w) = Present ps \<and> u_errors (broadcast_data w) = Present [m]"
  using assms by (simp add: broadcast_data_def filter_Boolean_def List.map_filter_def)

text \<open>
  The collectors of the program never hand it a rejected promise. A listing command
  that fails is absorbed by \<open>getProcessList\<close>, which answers with the record of the
  server process itself.
\<close>

lemma process_listing_failure_absorbed:
  "getProcessList rt platform (\<lambda>cmd. Inl e) np limit sortBy = [fallback_process np]"
  by (simp add: getProcessList_def getWindowsProcesses_def getUnixProcesses_def commands_def)

lemma collect_fulfils:
  assumes "collect h = Inr w"
  shows "(\<exists>c. w_cpuData w = Fulfilled c) \<and> (\<exists>m. w_memoryData w = Fulfilled m) \<and>
         (\<exists>ps. w_topProcesses w = Fulfilled ps)"
  using assms by (auto simp: collect_def split: sum.splits)

text \<open>So a snapshot that is assembled has no null field and no error string.\<close>

lemma collect_snapshot_complete:
  assumes "collect h = Inr w"
  shows "u_cpu (broadcast_data w) \<noteq> Null \<and> u_memory (broadcast_data w) \<noteq> Null \<and>
         u_processes (broadcast_data w) \<noteq> Null \<and> u_errors (broadcast_data w) = Present []"
  using assms
  by (auto simp: collect_def broadcast_data_def filter_Boolean_def List.map_filter_def split: sum.splits)

text \<open>
  The one failure of a collector: the second reading of \<open>os.cpus()\<close> is shorter than
  the first. Then, and only then, no snapshot is assembled.
\<close>

lemma cpu_deltas_throws_iff:
  "(\<exists>e. cpu_deltas cpus1 cpus2 acc = Inl e) \<longleftrightarrow> length cpus2 < length cpus1"
  by (induction cpus1 cpus2 acc rule: cpu_deltas.induct) (simp_all add: Let_def)

lemma collect_never_settles_iff:
  "(\<exists>never. collect h = Inl never) \<longleftrightarrow> length (h_cpus2 (hs_cpu h)) < length (h_cpus1 (hs_cpu h))"
proof -
  have "(\<exists>never. collect h = Inl never) \<longleftrightarrow> (\<exists>e. cpu_deltas (h_cpus1 (hs_cpu h)) (h_cpus2 (hs_cpu h)) (0, 0) = Inl e)"
    by (auto simp: collect_def getCPUUsage_def getCPUPercent_def Let_def
             split: sum.splits option.splits prod.splits)
  then show ?thesis by (simp add: cpu_deltas_throws_iff)
qed

lemma tick_on_suspended:
  assumes "tick_on h st = Suspended st' effs e"
  shows "st' = st \<and> effs = [Call CPUUsage, Call MemoryUsage, Call (ProcessList 10 ''cpu'')] \<and>
         collect h = Inl (NeverSettles e)"
  using assms by (auto simp: tick_on_def split: if_splits sum.splits pending.splits prod.splits)

lemma tick_on_finished:
  assumes "collect h = Inr w"
  shows "tick_on h st = Finished (fst (tick w st)) (snd (tick w st))"
  using assms by (simp add: tick_on_def tick_def broadcastSystemUpdate_def split_beta)

text \<open>
  Claim C2 fails on the code. The aggregator awaits \<open>Promise.allSettled\<close> and reads
  \<open>status\<close> and \<open>reason?.message\<close> of each outcome, so that a failing collector costs the
  snapshot one field; but the CPU collector fails inside the timer callback of
  \<open>getCPUPercent\<close>, where the error rejects no promise. On a host that loses a core
  between the two readings, with three subscribed clients of which two are open and
  no send throwing, the tick calls the three collectors and is suspended for ever:
  the state is unchanged, nothing is sent to any client, no snapshot with a null
  \<open>cpu\<close> field and an error string is assembled.
\<close>

theorem cpu_failure_suspends_tick:
  "getCPUUsage host_losing_core =
     Inl (NeverSettles (TypeError ''Cannot read properties of undefined (reading 'times')'')) \<and>
   subscribedClients state_subscribed = [1, 2, 3] \<and>
   ws_readyState (sockets state_subscribed 1) = 1 \<and>
   hs_send_throws (host_with host_losing_core) 1 = None \<and>
   tick_on (host_with host_losing_core) state_subscribed =
     Suspended state_subscribed
       [Call CPUUsage, Call MemoryUsage, Call (ProcessList 10 ''cpu'')]
       (TypeError ''Cannot read properties of undefined (reading 'times')'')"
  by (simp add: tick_on_def collect_def getCPUUsage_def getCPUPercent_def host_losing_core_def
        host_with_def state_subscribed_def subscribedClients_def)

subsection \<open>A send that throws\<close>

text \<open>
  Claim C7, as amended. During one tick, if sending to a subscribed open channel
  throws, that channel is removed from the registry, and every other subscribed
  channel that is open and whose own send does not throw is still sent the same
  snapshot and stays in the registry. A subscribed channel that is not open is
  skipped: whatever is sent is that one snapshot, to a channel that is open.
\<close>

theorem push_failure_is_local:
  "ws \<in> set (subscribedClients st) \<Longrightarrow> ws_readyState (sockets st ws) = 1 \<Longrightarrow>
   w_send_throws w ws \<noteq> None \<Longrightarrow>
     ws \<notin> set (connectedClients (fst (tick w st))) \<and>
     (\<forall>x \<in> set (subscribedClients st).
        x \<noteq> ws \<and> ws_readyState (sockets st x) = 1 \<and> w_send_throws w x = None \<longrightarrow>
          Sent x (broadcast_data w) \<in> set (snd (tick w st)) \<and>
          x \<in> set (connectedClients (fst (tick w st)))) \<and>
     (\<forall>x u. Sent x u \<in> set (snd (tick w st)) \<longrightarrow>
        u = broadcast_data w \<and> ws_readyState (sockets st x) = 1)"
  by (auto simp: tick_sent tick_clients subscribedClients_def)

theorem push_failure_is_local_witness:
  "1 \<in> set (subscribedClients state_subscribed) \<and>
   ws_readyState (sockets state_subscribed 1) = 1 \<and>
   w_send_throws world_send1_throws 1 \<noteq> None \<and>
   1 \<notin> set (connectedClients (fst (tick world_send1_throws state_subscribed))) \<and>
   2 \<in> set (subscribedClients state_subscribed) \<and>
   ws_readyState (sockets state_subscribed 2) = 1 \<and>
   w_send_throws world_send1_throws 2 = None \<and>
   Sent 2 (broadcast_data world_send1_throws) \<in> set (snd (tick world_send1_throws state_subscribed)) \<and>
   2 \<in> set (connectedClients (fst (tick world_send1_throws state_subscribed)))"
proof -
  have h1: "1 \<in> set (subscribedClients state_subscribed)"
    and h2: "ws_readyState (sockets state_subscribed 1) = 1"
    and h3: "w_send_throws world_send1_throws 1 \<noteq> None"
    and h4: "2 \<in> set (subscribedClients state_subscribed)"
    and h5: "ws_readyState (sockets state_subscribed 2) = 1"
    and h6: "w_send_throws world_send1_throws 2 = None"
    by (simp_all add: sample_defs subscribedClients_def)
  from push_failure_is_local [OF h1 h2 h3] h1 h2 h3 h4 h5 h6 show ?thesis
    by auto
qed

text \<open>
  Claim C7 as stated fails for a remaining subscribed channel that is not open: with
  channels 1, 2, 3 subscribed, channel 3 closing and the send to channel 1 throwing,
  channel 3 remains registered and subscribed and receives nothing.
\<close>

theorem push_failure_counterexample:
  "3 \<in> set (subscribedClients state_subscribed) \<and>
   w_send_throws world_send1_throws 1 = Some ''socket hang up'' \<and>
   tick world_send1_throws state_subscribed =
     (state_subscribed \<lparr> connectedClients := [2, 3] \<rparr>,
      [Call CPUUsage, Call MemoryUsage, Call (ProcessList 10 ''cpu''),
       SendFailed 1 ''socket hang up'', Sent 2 (broadcast_data world_send1_throws)]) \<and>
   Sent 3 (broadcast_data world_send1_throws) \<notin> set (snd (tick world_send1_throws state_subscribed))"
  by (simp add: sample_defs tick_def broadcastSystemUpdate_def subscribedClients_def set_delete_def)

subsection \<open>The on-demand reply\<close>



subsection \<open>Leaving the registry\<close>

text \<open>
  Claim C10. If a channel is in the connected-channel set before an event and not
  after it, the event is the channel's close event, its error event, or a tick in
  which the channel is subscribed and open and its send throws. In particular a
  subscribed channel that is not open at a tick stays in the set, is sent nothing
  and raises no send failure.
\<close>

theorem registry_removal_causes:
  "(ws \<in> set (connectedClients st) \<and> ws \<notin> set (connectedClients (fst (step w e st))) \<longrightarrow>
      e = Close ws \<or> e = SocketError ws \<or>
      (e = Tick \<and> ws_subscribed (sockets st ws) \<and> ws_readyState (sockets st ws) = 1 \<and>
       w_send_throws w ws \<noteq> None)) \<and>
   (ws \<in> set (connectedClients st) \<and> ws_subscribed (sockets st ws) \<and>
    ws_readyState (sockets st ws) \<noteq> 1 \<longrightarrow>
      ws \<in> set (connectedClients (fst (step w Tick st))) \<and>
      (\<forall>u. Sent ws u \<notin> set (snd (step w Tick st))) \<and>
      (\<forall>m. SendFailed ws m \<notin> set (snd (step w Tick st))))"
proof -
  have removal: "e = Close ws \<or> e = SocketError ws \<or>
      (e = Tick \<and> ws_subscribed (sockets st ws) \<and> ws_readyState (sockets st ws) = 1 \<and>
       w_send_throws w ws \<noteq> None)"
    if "ws \<in> set (connectedClients st)" "ws \<notin> set (connectedClients (fst (step w e st)))"
  proof (cases e)
    case Tick
    with that show ?thesis
      by (auto simp: tick_clients subscribedClients_def split: if_splits)
  qed (use that in \<open>auto simp: set_add_def set_delete_def handleClientMessage_clients split: if_splits\<close>)
  have skipped: "ws \<in> set (connectedClients (fst (step w Tick st))) \<and>
      (\<forall>u. Sent ws u \<notin> set (snd (step w Tick st))) \<and>
      (\<forall>m. SendFailed ws m \<notin> set (snd (step w Tick st)))"
    if "ws \<in> set (connectedClients st)" "ws_readyState (sockets st ws) \<noteq> 1"
    using that by (auto simp: tick_clients tick_sent tick_failed)
  from removal skipped show ?thesis by blast
qed

theorem registry_removal_causes_witness:
  "3 \<in> set (connectedClients state_subscribed) \<and> ws_subscribed (sockets state_subscribed 3) \<and>
   ws_readyState (sockets state_subscribed 3) \<noteq> 1 \<and>
   3 \<in> set (connectedClients (fst (step world_send1_throws Tick state_subscribed))) \<and>
   1 \<in> set (connectedClients state_subscribed) \<and>
   1 \<notin> set (connectedClients (fst (step world_send1_throws Tick state_subscribed))) \<and>
   ws_subscribed (sockets state_subscribed 1) \<and> ws_readyState (sockets state_subscribed 1) = 1 \<and>
   w_send_throws world_send1_throws 1 \<noteq> None"
  using registry_removal_causes [of 3 state_subscribed world_send1_throws Tick]
    registry_removal_causes [of 1 state_subscribed world_send1_throws Tick]
  by (simp add: sample_defs tick_def broadcastSystemUpdate_def subscribedClients_def set_delete_def)

section \<open>Properties of the client reconnection manager\<close>

lemmas client_defs = connect_def onopen_def onclose_def onerror_def timer_fires_def disconnect_def
  requestUpdate_def maxReconnectAttempts_def reconnectDelay_def useWebSocket_def exposed_def

text \<open>The two runs against a server that is down.\<close>

lemma client_retrying_eq:
  "client_retrying =
     \<lparr> c_connected = False, c_lastUpdate = None, c_data = None, c_wsRef = None,
       c_reconnectTimeoutRef = Some 1, c_reconnectAttempts = 1, c_timers = [1], c_fresh = 2 \<rparr>"
  by (simp add: client_retrying_def first_failure_def client_defs)

lemma six_failures_run:
  "client_run six_failures useWebSocket =
     (\<lparr> c_connected = False, c_lastUpdate = None, c_data = None, c_wsRef = None,
        c_reconnectTimeoutRef = Some 9, c_reconnectAttempts = 5, c_timers = [], c_fresh = 11 \<rparr>,
      [NewSocket 0, SetTimeout 1 3000, NewSocket 2, SetTimeout 3 3000, NewSocket 4, SetTimeout 5 3000,
       NewSocket 6, SetTimeout 7 3000, NewSocket 8, SetTimeout 9 3000, NewSocket 10])"
  by code_simp

lemma client_gave_up_eq:
  "client_gave_up =
     \<lparr> c_connected = False, c_lastUpdate = None, c_data = None, c_wsRef = None,
       c_reconnectTimeoutRef = Some 9, c_reconnectAttempts = 5, c_timers = [], c_fresh = 11 \<rparr>"
  by (simp add: client_gave_up_def six_failures_run)

text \<open>The retry count never exceeds the maximum, whatever happens.\<close>

lemma client_step_attempts:
  assumes "c_reconnectAttempts c \<le> maxReconnectAttempts"
  shows "c_reconnectAttempts (fst (client_step e c)) \<le> maxReconnectAttempts"
proof (cases e)
  case (Frame ws m)
  with assms show ?thesis by (cases m) simp_all
next
  case (Unmount is_open)
  with assms show ?thesis
    by (simp add: disconnect_def split_beta split: option.splits)
qed (use assms in \<open>auto simp: connect_def onopen_def onclose_def onerror_def timer_fires_def
       requestUpdate_def Let_def split: option.splits\<close>)

lemma client_run_attempts:
  "c_reconnectAttempts c \<le> maxReconnectAttempts \<Longrightarrow>
     c_reconnectAttempts (fst (client_run es c)) \<le> maxReconnectAttempts"
proof (induction es arbitrary: c)
  case Nil
  then show ?case by simp
next
  case (Cons e es)
  from Cons.prems have "c_reconnectAttempts (fst (client_step e c)) \<le> maxReconnectAttempts"
    by (rule client_step_attempts)
  then have "c_reconnectAttempts (fst (client_run es (fst (client_step e c)))) \<le> maxReconnectAttempts"
    by (rule Cons.IH)
  then show ?case by (simp add: split_beta)
qed

text \<open>
  Claim C8, as amended. A close while fewer than 5 consecutive failures are counted
  schedules exactly one timer, with the fixed delay of 3000 ms, and counts one more
  failure; when that timer fires, one new socket is opened. A close when 5 failures
  are counted schedules nothing. After either close the state the hook exposes is
  \<open>connected = false\<close> with the last update and data unchanged: it has no value that
  tells giving up from retrying. Every open resets the count to 0 and sends one
  \<open>subscribe\<close> intent on the opened socket.
\<close>

theorem reconnect_bounded_fixed_delay:
  "(c_reconnectAttempts c < 5 \<longrightarrow>
      snd (onclose ws c) = [SetTimeout (c_fresh c) 3000] \<and>
      c_reconnectAttempts (fst (onclose ws c)) = Suc (c_reconnectAttempts c) \<and>
      c_timers (fst (onclose ws c)) = c_timers c @ [c_fresh c] \<and>
      snd (timer_fires False (c_fresh c) (fst (onclose ws c))) = [NewSocket (Suc (c_fresh c))]) \<and>
   (5 \<le> c_reconnectAttempts c \<longrightarrow>
      onclose ws c = (c \<lparr> c_connected := False, c_wsRef := None \<rparr>, [])) \<and>
   exposed (fst (onclose ws c)) = (False, c_lastUpdate c, c_data c) \<and>
   onopen ws c = (c \<lparr> c_connected := True, c_reconnectAttempts := 0 \<rparr>, [SendIntent ws ''subscribe''])"
  by (simp add: client_defs Let_def)

theorem reconnect_bounded_fixed_delay_witness:
  "c_reconnectAttempts client_retrying < 5 \<and>
   snd (onclose 2 client_retrying) = [SetTimeout 2 3000] \<and>
   c_reconnectAttempts (fst (onclose 2 client_retrying)) = 2 \<and>
   5 \<le> c_reconnectAttempts client_gave_up \<and>
   snd (onclose 12 client_gave_up) = [] \<and>
   c_reconnectAttempts (fst (onopen 2 client_retrying)) = 0 \<and>
   snd (onopen 2 client_retrying) = [SendIntent 2 ''subscribe'']"
proof -
  have r: "c_reconnectAttempts client_retrying < 5" "c_fresh client_retrying = 2"
    "c_reconnectAttempts client_retrying = 1"
    by (simp_all add: client_retrying_eq)
  have g: "5 \<le> c_reconnectAttempts client_gave_up"
    by (simp add: client_gave_up_eq)
  from reconnect_bounded_fixed_delay [of client_retrying 2] r
  have a: "snd (onclose 2 client_retrying) = [SetTimeout 2 3000]"
    "c_reconnectAttempts (fst (onclose 2 client_retrying)) = 2"
    "onopen 2 client_retrying =
       (client_retrying \<lparr> c_connected := True, c_reconnectAttempts := 0 \<rparr>, [SendIntent 2 ''subscribe''])"
    by simp_all
  from reconnect_bounded_fixed_delay [of client_gave_up 12] g
  have b: "snd (onclose 12 client_gave_up) = []"
    by simp
  from r g a b show ?thesis by simp
qed

text \<open>
  Claim C8 as stated fails where it says that the exposed state reports the terminal
  condition: after the sixth close in a row no timer is pending and a further close
  schedules none, yet the exposed state is equal to the one after the first close,
  when a retry is pending.
\<close>

theorem reconnect_no_gave_up_counterexample:
  "c_reconnectAttempts client_gave_up = maxReconnectAttempts \<and> c_timers client_gave_up = [] \<and>
   snd (onclose 12 client_gave_up) = [] \<and>
   c_reconnectAttempts client_retrying = 1 \<and> c_timers client_retrying = [1] \<and>
   exposed client_gave_up = exposed client_retrying \<and>
   exposed (fst (onclose 12 client_gave_up)) = exposed client_retrying"
  by (simp add: client_gave_up_eq client_retrying_eq client_defs)

section \<open>Properties of the system collectors\<close>

subsection \<open>Megabytes\<close>

lemma to_double_not_NaN: "to_double x \<noteq> NaN"
  by (simp add: to_double_def Let_def)

text \<open>Dividing by 1024 only lowers the exponent, so it is exact.\<close>

lemma num_div_pow2_exact:
  assumes "\<bar>n\<bar> < 2 ^ 53" "- 1054 \<le> k" "k \<le> 0"
  shows "num_div (Fin (of_int n * pow2 k)) (Fin 1024) = Fin (of_int n * pow2 (k - 10))"
proof -
  have p10: "pow2 (- 10) = 1 / 1024" by (simp add: pow2_def)
  have eq: "of_int n * pow2 k / 1024 = of_int n * pow2 (k - 10)"
    using pow2_add [of k "- 10"] by (simp add: p10)
  have "\<bar>real_of_int n\<bar> < 2 ^ 53"
    using assms(1) by (metis of_int_abs of_int_less_iff of_int_numeral of_int_power)
  moreover have "pow2 (k - 10) \<le> 1"
    using pow2_mono [of "k - 10" 0] assms(3) by (simp add: pow2_0)
  ultimately have "\<bar>real_of_int n\<bar> * pow2 (k - 10) < 2 ^ 53 * 1"
    using pow2_pos [of "k - 10"] by (intro mult_less_le_imp_less) simp_all
  then have small: "\<bar>of_int n * pow2 (k - 10)\<bar> < 2 ^ 1024"
    using pow2_pos [of "k - 10"] by (simp add: abs_mult)
  have "to_double (of_int n * pow2 (k - 10)) = Fin (of_int n * pow2 (k - 10))"
    using assms small by (intro to_double_exact [where n = n and k = "k - 10"]) simp_all
  then show ?thesis by (simp add: eq)
qed

text \<open>\<open>Math.round(bytes / 1024 / 1024)\<close> in integer arithmetic.\<close>

lemma to_MB_exact:
  assumes "\<bar>bytes\<bar> < 2 ^ 53"
  shows "to_MB bytes = of_integer ((bytes + 524288) div 1048576)"
proof -
  have "num_div (of_integer bytes) (Fin 1024) = Fin (of_int bytes * pow2 (- 10))"
    using num_div_pow2_exact [OF assms, of 0] by (simp add: pow2_0)
  moreover have "num_div (Fin (of_int bytes * pow2 (- 10))) (Fin 1024) = Fin (of_int bytes * pow2 (- 20))"
    using num_div_pow2_exact [OF assms, of "- 10"] by simp
  moreover have "pow2 (- 20) = 1 / 1048576" by (simp add: pow2_def)
  ultimately have "to_MB bytes = math_round (Fin (of_int bytes / 1048576))"
    by (simp add: to_MB_def)
  moreover have "\<lfloor>real_of_int bytes / 1048576 + 1 / 2\<rfloor> = (bytes + 524288) div 1048576"
  proof -
    have "real_of_int bytes / 1048576 + 1 / 2 = real_of_int (bytes + 524288) / real_of_int 1048576"
      by (simp add: field_simps)
    then show ?thesis by (simp only: floor_divide_of_int_eq)
  qed
  ultimately show ?thesis by simp
qed

text \<open>Three byte counts rounded one by one: the rounded difference is off by at most one.\<close>

lemma mb_rounding_gap:
  fixes t f :: int
  shows "\<bar>(t - f + 524288) div 1048576 - ((t + 524288) div 1048576 - (f + 524288) div 1048576)\<bar> \<le> 1"
proof -
  define a where "a = (t - f + 524288) div 1048576"
  define b where "b = (t + 524288) div 1048576"
  define c where "c = (f + 524288) div 1048576"
  have bnd: "1048576 * (x div 1048576) \<le> x \<and> x < 1048576 * (x div 1048576) + 1048576" for x :: int
    using pos_mod_bound [of 1048576 x] pos_mod_sign [of 1048576 x] mult_div_mod_eq [of 1048576 x]
    by linarith
  from bnd [of "t - f + 524288"] bnd [of "t + 524288"] bnd [of "f + 524288"]
  have "1048576 * a \<le> t - f + 524288" "t - f + 524288 < 1048576 * a + 1048576"
    "1048576 * b \<le> t + 524288" "t + 524288 < 1048576 * b + 1048576"
    "1048576 * c \<le> f + 524288" "f + 524288 < 1048576 * c + 1048576"
    by (simp_all add: a_def b_def c_def)
  then have "\<bar>a - (b - c)\<bar> \<le> 1" by linarith
  then show ?thesis by (simp add: a_def b_def c_def)
qed

subsection \<open>The memory sample\<close>

lemma getMemoryUsage_base:
  "mem_total (getMemoryUsage t f p rf) = to_MB t \<and>
   mem_free (getMemoryUsage t f p rf) = to_MB f \<and>
   mem_used (getMemoryUsage t f p rf) = to_MB (t - f) \<and>
   mem_percentage (getMemoryUsage t f p rf) =
     math_round (num_mul (num_div (of_integer (t - f)) (of_integer t)) (Fin 100))"
  by (simp add: getMemoryUsage_def Let_def split: option.splits)

lemma memory_reading_fields:
  "mem_total memory_reading = Fin 1024 \<and> mem_free memory_reading = Fin 702 \<and>
   mem_used memory_reading = Fin 323 \<and> mem_percentage memory_reading = Fin 31"
proof -
  have "to_MB 1073741824 = Fin 1024" "to_MB 735576064 = Fin 702" "to_MB 338165760 = Fin 323"
    by (simp_all add: to_MB_exact)
  moreover have "math_round (num_mul (num_div (Fin 338165760) (Fin 1073741824)) (Fin 100)) = Fin 31"
    by (simp add: dbl_eval)
  ultimately show ?thesis
    using getMemoryUsage_base [of 1073741824 735576064 "''android''" no_files]
    by (simp add: memory_reading_def)
qed

text \<open>
  Claim C3, as amended. For byte counts \<open>0 \<le> free \<le> total < 2^53\<close>, each of the fields
  \<open>total\<close>, \<open>free\<close> and \<open>used\<close> of the memory sample is the corresponding byte count
  (\<open>used\<close>: total bytes minus free bytes) divided by \<open>2^20\<close> and rounded to the nearest
  integer, ties upwards; so \<open>used\<close> differs from \<open>total - free\<close> by at most 1. The
  \<open>percentage\<close> field is \<open>Math.round\<close> of used bytes over total bytes times 100: it is
  computed from the byte counts, not from the megabyte fields.
\<close>

theorem memory_sample_rounds_each_field:
  assumes "0 \<le> freeMemory" "freeMemory \<le> totalMemory" "totalMemory < 2 ^ 53"
  shows "\<exists>total free used.
           mem_total (getMemoryUsage totalMemory freeMemory platform readFile) = of_integer total \<and>
           mem_free (getMemoryUsage totalMemory freeMemory platform readFile) = of_integer free \<and>
           mem_used (getMemoryUsage totalMemory freeMemory platform readFile) = of_integer used \<and>
           total = (totalMemory + 524288) div 1048576 \<and>
           free = (freeMemory + 524288) div 1048576 \<and>
           used = (totalMemory - freeMemory + 524288) div 1048576 \<and>
           \<bar>used - (total - free)\<bar> \<le> 1 \<and>
           mem_percentage (getMemoryUsage totalMemory freeMemory platform readFile) =
             math_round (num_mul (num_div (of_integer (totalMemory - freeMemory)) (of_integer totalMemory))
                                 (Fin 100))"
proof -
  from assms have "\<bar>totalMemory\<bar> < 2 ^ 53" "\<bar>freeMemory\<bar> < 2 ^ 53" "\<bar>totalMemory - freeMemory\<bar> < 2 ^ 53"
    by simp_all
  then have "to_MB totalMemory = of_integer ((totalMemory + 524288) div 1048576)"
    "to_MB freeMemory = of_integer ((freeMemory + 524288) div 1048576)"
    "to_MB (totalMemory - freeMemory) = of_integer ((totalMemory - freeMemory + 524288) div 1048576)"
    by (simp_all only: to_MB_exact)
  with getMemoryUsage_base [of totalMemory freeMemory platform readFile]
    mb_rounding_gap [of totalMemory freeMemory]
  show ?thesis by simp
qed

theorem memory_sample_rounds_each_field_witness:
  "(0::int) \<le> 735576064 \<and> (735576064::int) \<le> 1073741824 \<and> (1073741824::int) < 2 ^ 53 \<and>
   mem_total memory_reading = of_integer 1024 \<and> mem_free memory_reading = of_integer 702 \<and>
   mem_used memory_reading = of_integer 323 \<and> \<bar>(323::int) - (1024 - 702)\<bar> \<le> 1"
  using memory_sample_rounds_each_field [of 735576064 1073741824 "''android''" no_files]
  by (simp add: memory_reading_def)

text \<open>
  Claim C3 as stated fails on a host with 1 GiB of memory and 701.5 MiB free: the
  sample has \<open>total = 1024\<close>, \<open>free = 702\<close>, \<open>used = 323\<close>, but \<open>total - free = 322\<close>; and
  \<open>percentage = 31\<close>, but \<open>round(used / total * 100) = 32\<close>.
\<close>

theorem memory_sample_counterexample:
  "mem_total memory_reading = Fin 1024 \<and> mem_free memory_reading = Fin 702 \<and>
   mem_used memory_reading = Fin 323 \<and>
   num_sub (mem_total memory_reading) (mem_free memory_reading) = Fin 322 \<and>
   mem_used memory_reading \<noteq> num_sub (mem_total memory_reading) (mem_free memory_reading) \<and>
   mem_percentage memory_reading = Fin 31 \<and>
   math_round (num_mul (num_div (mem_used memory_reading) (mem_total memory_reading)) (Fin 100)) = Fin 32 \<and>
   mem_percentage memory_reading \<noteq>
     math_round (num_mul (num_div (mem_used memory_reading) (mem_total memory_reading)) (Fin 100))"
proof -
  have "num_sub (Fin 1024) (Fin 702) = Fin 322"
    by (simp add: dbl_eval)
  moreover have "math_round (num_mul (num_div (Fin 323) (Fin 1024)) (Fin 100)) = Fin 32"
    by (simp add: dbl_eval)
  ultimately show ?thesis
    using memory_reading_fields by simp
qed

subsection \<open>CPU utilisation\<close>

lemma cpu_deltas_same: "cpu_deltas cpus cpus acc = Inr acc"
proof (induction cpus arbitrary: acc)
  case Nil
  then show ?case by simp
next
  case (Cons c cpus)
  then show ?case by (cases acc) (simp add: Let_def)
qed

text \<open>An ordinary sample: 60 of 100 ticks idle.\<close>

lemma busy_core_usage: "getCPUPercent [idle_core] [busy_core] = Inr (Fin 40)"
  by (simp add: getCPUPercent_def idle_core_def busy_core_def times_total_def dbl_eval)

text \<open>The clamp maps every number but \<open>NaN\<close> into the range.\<close>

lemma clamp_exact_integer:
  assumes "\<bar>k\<bar> < 2 ^ 53"
  shows "\<exists>n::int. 0 \<le> n \<and> n \<le> 100 \<and>
           math_max (Fin 0) (math_min (Fin 100) (Fin (of_int k))) = of_integer n"
proof -
  have "math_max (Fin 0) (math_min (Fin 100) (Fin (of_int k))) = of_integer (max 0 (min 100 k))"
    by (simp add: min_def max_def)
  then show ?thesis by (intro exI [of _ "max 0 (min 100 k)"]) simp
qed

lemma clamp_usage:
  "\<exists>n::int. 0 \<le> n \<and> n \<le> 100 \<and>
     math_max (Fin 0) (math_min (Fin 100) (num_sub (Fin 100) (of_integer k))) = of_integer n"
proof -
  consider (small) "\<bar>100 - k\<bar> < 2 ^ 53" | (big) "2 ^ 53 \<le> 100 - k" | (neg) "100 - k \<le> - (2 ^ 53)"
    by linarith
  then show ?thesis
  proof cases
    case small
    have "\<bar>real_of_int (100 - k)\<bar> < 2 ^ 53"
      using small by (metis of_int_abs of_int_less_iff of_int_numeral of_int_power)
    then have "\<bar>real_of_int (100 - k) * pow2 0\<bar> < 2 ^ 1024"
      by (simp add: pow2_0)
    with small have "to_double (of_int (100 - k) * pow2 0) = Fin (of_int (100 - k) * pow2 0)"
      by (intro to_double_exact [where n = "100 - k" and k = 0]) simp_all
    then have "num_sub (Fin 100) (of_integer k) = Fin (of_int (100 - k))"
      by (simp add: pow2_0)
    with clamp_exact_integer [OF small] show ?thesis by simp
  next
    case big
    then have r: "(2::real) ^ 53 \<le> of_int (100 - k)"
      by (metis of_int_le_iff of_int_numeral of_int_power)
    have p53: "pow2 53 = 2 ^ 53" by (simp add: pow2_def)
    have xpos: "0 < real_of_int (100 - k)" using r by simp
    have "pow2 (- 1074) \<le> pow2 53" by (rule pow2_mono) simp
    with r p53 have low: "pow2 (- 1074) \<le> real_of_int (100 - k)" by linarith
    have "53 \<le> ilog2 (real_of_int (100 - k))"
      using xpos r p53 by (intro ilog2_ge) simp_all
    then have "pow2 53 \<le> pow2 (ilog2 (real_of_int (100 - k)))" by (rule pow2_mono)
    with to_double_pos [OF low]
    have "to_double (real_of_int (100 - k)) = PInf \<or>
          (\<exists>v. to_double (real_of_int (100 - k)) = Fin v \<and> 2 ^ 53 \<le> v)"
      using p53 by auto
    then have "math_max (Fin 0) (math_min (Fin 100) (num_sub (Fin 100) (of_integer k))) = of_integer 100"
      by (auto simp: min_def max_def)
    then show ?thesis by (intro exI [of _ 100]) simp
  next
    case neg
    then have r: "of_int (100 - k) \<le> - ((2::real) ^ 53)"
      by (metis of_int_le_iff of_int_minus of_int_numeral of_int_power)
    have p53: "pow2 53 = 2 ^ 53" by (simp add: pow2_def)
    have "pow2 (- 1074) \<le> pow2 53" by (rule pow2_mono) simp
    with r p53 have low: "real_of_int (100 - k) \<le> - pow2 (- 1074)" by linarith
    have xpos: "0 < - real_of_int (100 - k)" using r by simp
    have "53 \<le> ilog2 (- real_of_int (100 - k))"
      using xpos r p53 by (intro ilog2_ge) simp_all
    then have "pow2 53 \<le> pow2 (ilog2 (- real_of_int (100 - k)))" by (rule pow2_mono)
    with to_double_neg [OF low]
    have "to_double (real_of_int (100 - k)) = NInf \<or>
          (\<exists>v. to_double (real_of_int (100 - k)) = Fin v \<and> v \<le> - (2 ^ 53))"
      using p53 by auto
    then have "math_max (Fin 0) (math_min (Fin 100) (num_sub (Fin 100) (of_integer k))) = of_integer 0"
      by (auto simp: min_def max_def)
    then show ?thesis by (intro exI [of _ 0]) simp
  qed
qed

lemma math_round_cases:
  "x \<noteq> NaN \<Longrightarrow> math_round x = PInf \<or> math_round x = NInf \<or> (\<exists>k. math_round x = of_integer k)"
  by (cases x) auto

text \<open>With a non-zero total delta the usage is an integer between 0 and 100.\<close>

lemma cpu_percent_in_range:
  assumes "cpu_deltas cpus1 cpus2 (0, 0) = Inr (totalIdle, totalTick)" and "totalTick \<noteq> 0"
  shows "\<exists>n::int. 0 \<le> n \<and> n \<le> 100 \<and> getCPUPercent cpus1 cpus2 = Inr (of_integer n)"
proof -
  define x where "x = num_mul (num_div (of_integer totalIdle) (of_integer totalTick)) (Fin 100)"
  have "num_div (of_integer totalIdle) (of_integer totalTick) \<noteq> NaN"
    using assms(2) by (simp add: to_double_not_NaN)
  then have "x \<noteq> NaN"
    unfolding x_def
    by (cases "num_div (of_integer totalIdle) (of_integer totalTick)") (simp_all add: to_double_not_NaN)
  from math_round_cases [OF this]
  have "\<exists>n::int. 0 \<le> n \<and> n \<le> 100 \<and>
          math_max (Fin 0) (math_min (Fin 100) (num_sub (Fin 100) (math_round x))) = of_integer n"
  proof (elim disjE exE)
    assume "math_round x = PInf"
    then show ?thesis by (intro exI [of _ 0]) simp
  next
    assume "math_round x = NInf"
    then show ?thesis by (intro exI [of _ 100]) simp
  next
    fix k assume "math_round x = of_integer k"
    then show ?thesis using clamp_usage [of k] by simp
  qed
  then show ?thesis
    using assms(1) by (simp add: getCPUPercent_def x_def Let_def)
qed

text \<open>
  Claim C4 fails where it says ``including equal readings''. When the two readings of
  the tick counters are equal, and in particular when \<open>os.cpus()\<close> returns no core at
  all, both deltas are zero, \<open>0 / 0\<close> is \<open>NaN\<close>, and \<open>NaN\<close> passes through
  \<open>Math.round\<close>, the subtraction, \<open>Math.min\<close> and \<open>Math.max\<close>: the usage is \<open>NaN\<close>, which
  is no integer.
\<close>

theorem cpu_usage_nan_without_ticks:
  "getCPUPercent cpus cpus = Inr NaN \<and>
   getCPUPercent [] [] = Inr NaN \<and>
   map_sum id cpu_usage (getCPUUsage host_without_cpus) = Inr NaN \<and>
   (\<forall>n. NaN \<noteq> of_integer n)"
proof -
  have "getCPUPercent cs cs = Inr NaN" for cs
    by (simp add: getCPUPercent_def cpu_deltas_same)
  then show ?thesis
    by (simp add: getCPUUsage_def host_without_cpus_def Let_def)
qed

section \<open>Properties of the process table collector\<close>

subsection \<open>Sorting and slicing\<close>

lemma set_insert_sorted: "set (insert_sorted cmp x ys) = insert x (set ys)"
  by (induction ys) auto

lemma set_array_sort: "set (array_sort cmp xs) = set xs"
  by (induction xs) (simp_all add: array_sort_def set_insert_sorted)

lemma mset_insert_sorted: "mset (insert_sorted cmp x ys) = add_mset x (mset ys)"
  by (induction ys) auto

lemma mset_array_sort: "mset (array_sort cmp xs) = mset xs"
  by (induction xs) (simp_all add: array_sort_def mset_insert_sorted)

lemma set_slice0: "set (slice0 limit xs) \<subseteq> set xs"
  by (auto simp: slice0_def dest: in_set_takeD)




subsection \<open>The POSIX path\<close>


lemma truthy_num_iff: "truthy_num x \<longleftrightarrow> x \<noteq> NaN \<and> x \<noteq> Fin 0"
  by (cases x) auto



text \<open>
  On the POSIX path every record of the batch has a pid that is a number other than
  \<open>NaN\<close> and zero: a line whose pid column parses to \<open>NaN\<close> or to 0 contributes nothing.
\<close>

lemma unix_batch_pids:
  assumes "p \<in> set (parseUnixProcesses rt stdout limit sortBy commandUsed)"
  shows "p_pid p \<noteq> NaN \<and> p_pid p \<noteq> Fin 0"
proof -
  from assms have "p \<in> set (List.map_filter (unix_line rt commandUsed)
                               (tl (split_char (CHR 0x0A) (trim stdout))))"
    using set_slice0 by (fastforce simp: parseUnixProcesses_def Let_def set_array_sort)
  then obtain raw where "unix_line rt commandUsed raw = Some p"
    by (auto simp: List.map_filter_def)
  then show ?thesis
    by (auto simp: unix_line_def Let_def truthy_num_iff split: if_splits option.splits)
qed






subsection \<open>The Windows path\<close>







subsection \<open>Examples\<close>

lemmas str_eval = trim_def trim_start_def is_space_def starts_with_def csv_row_def
lemmas int_eval = parseInt_def parse_int_def parse_digits_def is_digit_def digit_val_def
  digits_value_def num_or_def



text \<open>Truncation comes after sorting: of 90, 10 and 50 percent the top two are 90 and 50.\<close>

lemma ps_aux_top2:
  "map (\<lambda>p. (p_pid p, p_cpu p, p_name p)) (parseUnixProcesses sample_runtime ps_aux_output 2 ''cpu'' ''ps aux'') =
     [(Fin 1, Fin 90, ''/sbin/init''), (Fin 3, Fin 50, ''node'')]"
  by (simp add: parseUnixProcesses_def ps_aux_output_def sample_runtime_def unix_line_def aux_process_def
      str_eval int_eval str_or_def List.map_filter_def Let_def array_sort_def unix_compare_def slice0_def
      int_dbl)

text \<open>
  The POSIX filter is the truthiness of the pid: the lines with pid column \<open>0\<close> and \<open>x7\<close>
  are dropped, the line with \<open>-5\<close> is kept.
\<close>

lemma ps_aux_odd:
  "map (\<lambda>p. (p_pid p, p_name p)) (parseUnixProcesses sample_runtime ps_aux_odd_pids 20 ''pid'' ''ps aux'') =
     [(Fin (- 5), ''a'')]"
  by (simp add: parseUnixProcesses_def ps_aux_odd_pids_def sample_runtime_def unix_line_def aux_process_def
      str_eval int_eval str_or_def List.map_filter_def Let_def array_sort_def unix_compare_def slice0_def
      int_dbl)


subsection \<open>Pids on the Windows path\<close>

text \<open>
  Claim C5 fails on the Windows path. The POSIX loop pushes an object only when its
  pid is truthy; the Windows loop pushes every line of at least five columns, whatever
  its PID column reads. The listing of a Windows host begins with the System Idle
  Process, whose PID is 0: the batch contains a record with pid 0, which is not a
  positive integer.
\<close>

theorem windows_batch_keeps_pid_zero:
  "map_sum id (map (\<lambda>p. (p_pid p, p_name p)))
     (getWindowsProcesses rt (shell_with ''tasklist /FO CSV'' tasklist_output) 20 ''pid'') =
   Inr [(Fin 0, ''System Idle Process''), (Fin 4, ''System''), (Fin 5120, ''node.exe'')]"
  by (simp add: getWindowsProcesses_def shell_with_def tasklist_output_def str_eval int_eval
      windows_line_def List.map_filter_def Let_def array_sort_def windows_compare_def slice0_def int_dbl)

subsection \<open>The order of a batch\<close>



end
